theory Spec2Isabelle
  imports Complex_Main "HOL-Library.Product_Lexorder"
begin

section \<open>Numbers, rounding and times of day\<close>

text \<open>
  The Python sources compute with \<open>float\<close> and \<open>int\<close>. Both are embedded as their
  numeric values: a float is a \<^typ>\<open>real\<close>, an integer an \<^typ>\<open>int\<close>. The rounding
  error of binary floating point is therefore outside this development; every
  statement below is about the exact arithmetic the code writes down.
\<close>

text \<open>\<open>int(x)\<close> on a float truncates towards zero.\<close>

definition py_int :: "real \<Rightarrow> int" where
  "py_int x = (if 0 \<le> x then \<lfloor>x\<rfloor> else \<lceil>x\<rceil>)"

text \<open>
  \<open>round(x, 2)\<close>: the nearest multiple of \<open>0.01\<close>, a tie going to the even
  neighbour.
\<close>

definition round_half_even :: "real \<Rightarrow> int" where
  "round_half_even x =
     (let f = \<lfloor>x\<rfloor>; d = x - of_int f
      in if d < 1 / 2 then f
         else if 1 / 2 < d then f + 1
         else if even f then f else f + 1)"

definition py_round2 :: "real \<Rightarrow> real" where
  "py_round2 x = of_int (round_half_even (x * 100)) / 100"

text \<open>
  A \<open>datetime.time\<close> is compared by hour, then minute, then second: the
  lexicographic order on triples.
\<close>

type_synonym tod = "nat \<times> nat \<times> nat"

section \<open>Data model of the execution simulator\<close>

text \<open>
  A row of the candle \<open>DataFrame\<close>, with the columns the engine reads. \<open>Time\<close> is
  the string column the fetcher builds with \<open>dt.time.astype(str)\<close>. A candle series
  is the list of rows in frame order; the frame carries the positional index
  \<open>0, 1, ...\<close> that \<open>reset_index\<close> gives it, so the label \<open>iterrows\<close> yields is
  the position \<open>iloc\<close> takes.
\<close>

record candle =
  Time :: string
  Open :: real
  High :: real
  Low :: real
  Close :: real

text \<open>The dictionary \<open>calculate_entry\<close> returns and \<open>simulate_trade\<close> reads.\<close>

record entry_details =
  symbol :: string
  entry_time :: string
  entry_price :: real
  quantity :: int
  bias :: string
  stop_loss :: real
  target :: real
  invested_amount :: real

text \<open>
  The dictionary \<open>simulate_trade\<close> returns: the keys of the entry and the keys of
  the exit and the result.
\<close>

record trade = entry_details +
  date :: string
  exit_time :: string
  exit_price :: real
  exit_reason :: string
  gross_pnl :: real
  transaction_cost :: real
  net_pnl :: real
  profit_or_loss :: string

text \<open>
  The attributes \<open>__init__\<close> stores. Both classes read \<open>stop_loss_percent\<close> from
  the configuration, so it is the common part of the two records.
\<close>

record risk_rules =
  stop_loss_percent :: real

record engine = risk_rules +
  capital_per_trade :: real
  target_percent :: real
  slippage_percent :: real
  transaction_cost_percent :: real
  entry_start :: tod
  force_exit_time :: tod

section \<open>Execution simulator (\<open>real_algorithm_engine.RealAlgorithmEngine\<close>)\<close>

text \<open>
  \<open>datetime.strptime(s, '%H:%M:%S').time()\<close> is library code. It is a parameter
  \<open>strptime\<close> of the model: \<open>None\<close> is the exception that the source's bare
  \<open>except\<close> turns into \<open>continue\<close>.
\<close>

type_synonym time_parser = "string \<Rightarrow> tod option"

text \<open>The first loop of \<open>calculate_entry\<close>: the first row whose time parses and is at
  or after \<open>entry_start\<close>.\<close>

fun find_entry_candle :: "time_parser \<Rightarrow> tod \<Rightarrow> 'a candle_scheme list \<Rightarrow> 'a candle_scheme option" where
  "find_entry_candle strptime start [] = None"
| "find_entry_candle strptime start (c # cs) =
     (case strptime (Time c) of
        None \<Rightarrow> find_entry_candle strptime start cs
      | Some t \<Rightarrow> if start \<le> t then Some c else find_entry_candle strptime start cs)"

text \<open>Entry price: the open of the entry candle, moved against the trader.\<close>

definition slipped_entry :: "'e engine_scheme \<Rightarrow> string \<Rightarrow> real \<Rightarrow> real" where
  "slipped_entry E b base_price =
     (if b = ''BULLISH'' then base_price * (1 + slippage_percent E / 100)
      else base_price * (1 - slippage_percent E / 100))"

text \<open>Stop loss and target of \<open>calculate_entry\<close>, as the pair \<open>(stop_loss, target)\<close>.\<close>

definition entry_levels :: "'e engine_scheme \<Rightarrow> string \<Rightarrow> real \<Rightarrow> real \<times> real" where
  "entry_levels E b price =
     (if b = ''BULLISH'' then
        (price * (1 - stop_loss_percent E / 100), price * (1 + target_percent E / 100))
      else
        (price * (1 + stop_loss_percent E / 100), price * (1 - target_percent E / 100)))"

datatype error = KeyError string | TypeError | ZeroDivisionError

text \<open>
  \<open>calculate_entry\<close>: \<open>Inl\<close> is a raised exception, \<open>Inr None\<close> the returned
  \<open>None\<close>. The only operation that can raise on numeric columns is the division
  by the entry price.
\<close>

definition calculate_entry ::
  "time_parser \<Rightarrow> 'e engine_scheme \<Rightarrow> string \<Rightarrow> 'a candle_scheme list \<Rightarrow> string
     \<Rightarrow> error + entry_details option" where
  "calculate_entry strptime E stock_symbol candle_data b =
     (case find_entry_candle strptime (entry_start E) candle_data of
        None \<Rightarrow> Inr None
      | Some entry_candle \<Rightarrow>
          let base_price = Open entry_candle;
              price = slipped_entry E b base_price
          in if price = 0 then Inl ZeroDivisionError
             else
               let qty = py_int (capital_per_trade E / price)
               in if qty = 0 then Inr None
                  else
                    let (sl, tg) = entry_levels E b price;
                        invested = price * of_int qty
                    in Inr (Some \<lparr>symbol = stock_symbol,
                                   entry_time = Time entry_candle,
                                   entry_price = py_round2 price,
                                   quantity = qty,
                                   bias = b,
                                   stop_loss = py_round2 sl,
                                   target = py_round2 tg,
                                   invested_amount = py_round2 invested\<rparr>))"

text \<open>The first loop of \<open>simulate_trade\<close>: the position of the first row whose
  \<open>Time\<close> string equals \<open>entry_time\<close>.\<close>

fun find_entry_idx :: "string \<Rightarrow> 'a candle_scheme list \<Rightarrow> nat option" where
  "find_entry_idx t [] = None"
| "find_entry_idx t (c # cs) =
     (if Time c = t then Some 0 else map_option Suc (find_entry_idx t cs))"

text \<open>
  The scan \<open>for idx in range(entry_idx + 1, len(candle_data))\<close>, over the rows it
  visits. The result is \<open>(exit_price, exit_time, exit_reason)\<close> at the \<open>break\<close>, or
  \<open>None\<close> when the loop ends with \<open>exit_price\<close> still \<open>None\<close>.
\<close>

fun scan_exit ::
  "time_parser \<Rightarrow> tod \<Rightarrow> string \<Rightarrow> real \<Rightarrow> real \<Rightarrow> 'a candle_scheme list
     \<Rightarrow> (real \<times> string \<times> string) option" where
  "scan_exit strptime force_exit b sl tg [] = None"
| "scan_exit strptime force_exit b sl tg (c # cs) =
     (case strptime (Time c) of
        None \<Rightarrow> scan_exit strptime force_exit b sl tg cs
      | Some t \<Rightarrow>
          if force_exit \<le> t then Some (Close c, Time c, ''FORCE_EXIT_EOD'')
          else if b = ''BULLISH'' then
            (if Low c \<le> sl then Some (sl, Time c, ''STOP_LOSS'')
             else if tg \<le> High c then Some (tg, Time c, ''TARGET'')
             else scan_exit strptime force_exit b sl tg cs)
          else
            (if sl \<le> High c then Some (sl, Time c, ''STOP_LOSS'')
             else if Low c \<le> tg then Some (tg, Time c, ''TARGET'')
             else scan_exit strptime force_exit b sl tg cs))"

text \<open>
  The exit the simulation settles on, before slippage: the scan's, or the last
  row's close. \<open>candle_data.iloc[-1]\<close> is only reached after the entry row was
  found, so the series is not empty there.
\<close>

definition find_exit ::
  "time_parser \<Rightarrow> 'e engine_scheme \<Rightarrow> 'd entry_details_scheme \<Rightarrow> 'a candle_scheme list \<Rightarrow> nat
     \<Rightarrow> real \<times> string \<times> string" where
  "find_exit strptime E entry candle_data entry_idx =
     (case scan_exit strptime (force_exit_time E) (bias entry) (stop_loss entry) (target entry)
             (drop (entry_idx + 1) candle_data) of
        Some r \<Rightarrow> r
      | None \<Rightarrow> (Close (last candle_data), Time (last candle_data), ''FORCE_EXIT_EOD''))"

text \<open>Slippage on the exit, against the trader.\<close>

definition slipped_exit :: "'e engine_scheme \<Rightarrow> string \<Rightarrow> real \<Rightarrow> real" where
  "slipped_exit E b price =
     (if b = ''BULLISH'' then price * (1 - slippage_percent E / 100)
      else price * (1 + slippage_percent E / 100))"

text \<open>The profit and loss before rounding: \<open>gross_pnl\<close>, \<open>transaction_cost\<close> and
  \<open>net_pnl\<close> of the source, from the slipped exit price.\<close>

definition gross_of :: "'d entry_details_scheme \<Rightarrow> real \<Rightarrow> real" where
  "gross_of entry exit_p =
     (if bias entry = ''BULLISH'' then (exit_p - entry_price entry) * of_int (quantity entry)
      else (entry_price entry - exit_p) * of_int (quantity entry))"

definition cost_of :: "'e engine_scheme \<Rightarrow> 'd entry_details_scheme \<Rightarrow> real" where
  "cost_of E entry = invested_amount entry * 2 * (transaction_cost_percent E / 100)"

definition net_of :: "'e engine_scheme \<Rightarrow> 'd entry_details_scheme \<Rightarrow> real \<Rightarrow> real" where
  "net_of E entry exit_p = gross_of entry exit_p - cost_of E entry"

definition simulate_trade ::
  "time_parser \<Rightarrow> 'e engine_scheme \<Rightarrow> 'd entry_details_scheme \<Rightarrow> 'a candle_scheme list \<Rightarrow> string
     \<Rightarrow> trade option" where
  "simulate_trade strptime E entry candle_data trade_date =
     (case find_entry_idx (entry_time entry) candle_data of
        None \<Rightarrow> None
      | Some entry_idx \<Rightarrow>
          let (raw_exit, exit_t, reason) = find_exit strptime E entry candle_data entry_idx;
              exit_p = slipped_exit E (bias entry) raw_exit;
              net = net_of E entry exit_p
          in Some \<lparr>symbol = symbol entry,
                   entry_time = entry_time entry,
                   entry_price = py_round2 (entry_price entry),
                   quantity = quantity entry,
                   bias = bias entry,
                   stop_loss = py_round2 (stop_loss entry),
                   target = py_round2 (target entry),
                   invested_amount = py_round2 (invested_amount entry),
                   date = trade_date,
                   exit_time = exit_t,
                   exit_price = py_round2 exit_p,
                   exit_reason = reason,
                   gross_pnl = py_round2 (gross_of entry exit_p),
                   transaction_cost = py_round2 (cost_of E entry),
                   net_pnl = py_round2 net,
                   profit_or_loss =
                     (if 0 < net then ''PROFIT'' else if net < 0 then ''LOSS'' else ''BREAKEVEN'')\<rparr>)"


section \<open>Allocator (\<open>stock_allocator.StockAllocator\<close>)\<close>

record allocator = risk_rules +
  total_capital :: real
  basket_loss_percent :: real
  basket_profit_percent :: real
  risk_reward_ratio :: real
  capital_cap_percent :: real

text \<open>
  \<open>allocate_capital\<close> receives a list of dictionaries and writes new keys into
  them. A dictionary is a finite map from key strings to values; a value is a number
  (\<open>int\<close> or \<open>float\<close>, by its numeric value), a string, or a reference to some other
  object (the caller stores a data frame and a nested dictionary under further keys).
  The dictionaries live in a store, and the list holds their addresses, so that two
  list elements may be the same object.
\<close>

datatype pyval = Num real | Str string | Obj nat

type_synonym pydict = "string \<rightharpoonup> pyval"

type_synonym addr = nat

type_synonym store = "addr \<Rightarrow> pydict"

text \<open>Sequencing of operations that may raise.\<close>

definition and_then :: "error + 'a \<Rightarrow> ('a \<Rightarrow> error + 'b) \<Rightarrow> error + 'b" where
  "and_then m f = (case m of Inl e \<Rightarrow> Inl e | Inr x \<Rightarrow> f x)"

text \<open>\<open>d[k]\<close>, and the use of a value as a number in arithmetic or a comparison
  with a number.\<close>

definition get_item :: "pydict \<Rightarrow> string \<Rightarrow> error + pyval" where
  "get_item d k = (case d k of None \<Rightarrow> Inl (KeyError k) | Some v \<Rightarrow> Inr v)"

definition as_num :: "pyval \<Rightarrow> error + real" where
  "as_num v = (case v of Num x \<Rightarrow> Inr x | _ \<Rightarrow> Inl TypeError)"

definition get_num :: "pydict \<Rightarrow> string \<Rightarrow> error + real" where
  "get_num d k = and_then (get_item d k) as_num"

text \<open>\<open>for stock in stocks: body\<close>, where the body updates the dictionary
  \<open>stock\<close> refers to.\<close>

fun for_each :: "(pydict \<Rightarrow> error + pydict) \<Rightarrow> addr list \<Rightarrow> store \<Rightarrow> error + store" where
  "for_each body [] h = Inr h"
| "for_each body (a # as) h = and_then (body (h a)) (\<lambda>d. for_each body as (h(a := d)))"

text \<open>\<open>sum(term(stock) for stock in stocks)\<close>.\<close>

fun sum_over :: "(pydict \<Rightarrow> error + real) \<Rightarrow> store \<Rightarrow> addr list \<Rightarrow> error + real" where
  "sum_over term h [] = Inr 0"
| "sum_over term h (a # as) =
     and_then (term (h a)) (\<lambda>x. and_then (sum_over term h as) (\<lambda>s. Inr (x + s)))"

text \<open>\<open>[s for s in stocks if cond(s)]\<close>.\<close>

fun select_where :: "(pydict \<Rightarrow> error + bool) \<Rightarrow> store \<Rightarrow> addr list \<Rightarrow> error + addr list" where
  "select_where cond h [] = Inr []"
| "select_where cond h (a # as) =
     and_then (cond (h a)) (\<lambda>keep. and_then (select_where cond h as)
       (\<lambda>rest. Inr (if keep then a # rest else rest)))"

text \<open>Step 1: the weight from the confidence.\<close>

definition step1_weight :: "real \<Rightarrow> nat \<Rightarrow> pydict \<Rightarrow> error + pydict" where
  "step1_weight total_confidence n stock =
     (if 0 < total_confidence then
        and_then (get_num stock ''confidence'')
          (\<lambda>c. Inr (stock(''weight'' \<mapsto> Num (c / total_confidence))))
      else Inr (stock(''weight'' \<mapsto> Num (1 / real n))))"

text \<open>Step 2: the loss cap of the stock.\<close>

definition step2_loss_cap :: "real \<Rightarrow> pydict \<Rightarrow> error + pydict" where
  "step2_loss_cap max_basket_loss stock =
     and_then (get_num stock ''weight'')
       (\<lambda>w. Inr (stock(''loss_cap'' \<mapsto> Num (max_basket_loss * w))))"

text \<open>Step 3: stop loss and target. The risk per share is read back from the
  \<open>stop_loss\<close> just written.\<close>

definition step3_levels :: "'x allocator_scheme \<Rightarrow> pydict \<Rightarrow> error + pydict" where
  "step3_levels A stock =
     and_then (get_item stock ''entry_price'') (\<lambda>entry_v.
     and_then (get_item stock ''bias'') (\<lambda>b.
     and_then (as_num entry_v) (\<lambda>entry.
       if b = Str ''BULLISH'' then
         let stock1 = stock(''stop_loss'' \<mapsto> Num (entry * (1 - stop_loss_percent A / 100)))
         in and_then (get_num stock1 ''stop_loss'') (\<lambda>sl.
              let risk_per_share = entry - sl
              in Inr (stock1(''target'' \<mapsto> Num (entry + risk_per_share * risk_reward_ratio A))))
       else
         let stock1 = stock(''stop_loss'' \<mapsto> Num (entry * (1 + stop_loss_percent A / 100)))
         in and_then (get_num stock1 ''stop_loss'') (\<lambda>sl.
              let risk_per_share = sl - entry
              in Inr (stock1(''target'' \<mapsto> Num (entry - risk_per_share * risk_reward_ratio A)))))))"

text \<open>Step 4: the quantity the loss cap allows.\<close>

definition step4_raw_quantity :: "pydict \<Rightarrow> error + pydict" where
  "step4_raw_quantity stock =
     and_then (get_item stock ''entry_price'') (\<lambda>entry_v.
     and_then (get_item stock ''stop_loss'') (\<lambda>sl_v.
     and_then (as_num entry_v) (\<lambda>entry.
     and_then (as_num sl_v) (\<lambda>sl.
       let risk_per_share = \<bar>entry - sl\<bar>
       in if 0 < risk_per_share then
            and_then (get_num stock ''loss_cap'')
              (\<lambda>lc. Inr (stock(''raw_quantity'' \<mapsto> Num (lc / risk_per_share))))
          else Inr (stock(''raw_quantity'' \<mapsto> Num 0))))))"

text \<open>Step 5: the capital cap, the floor, and the single share that is forced
  when the floor is not positive and one share fits under the cap.\<close>

definition step5_capital_cap :: "real \<Rightarrow> pydict \<Rightarrow> error + pydict" where
  "step5_capital_cap max_capital_per_stock stock =
     and_then (get_item stock ''entry_price'') (\<lambda>entry_v.
     and_then (get_item stock ''raw_quantity'') (\<lambda>raw_v.
     and_then (as_num entry_v) (\<lambda>entry.
     and_then (as_num raw_v) (\<lambda>raw.
       let capped_quantity = min raw (if 0 < entry then max_capital_per_stock / entry else 0);
           floored_qty = \<lfloor>capped_quantity\<rfloor>
       in Inr (stock(''quantity'' \<mapsto> Num (of_int
            (if 0 < floored_qty then floored_qty
             else if entry \<le> max_capital_per_stock then 1 else 0))))))))"

text \<open>Step 6: the capital a position uses, and the scaling of a quantity.\<close>

definition position_value :: "pydict \<Rightarrow> error + real" where
  "position_value stock =
     and_then (get_item stock ''quantity'') (\<lambda>q_v.
     and_then (get_item stock ''entry_price'') (\<lambda>entry_v.
     and_then (as_num q_v) (\<lambda>q.
     and_then (as_num entry_v) (\<lambda>entry. Inr (q * entry)))))"

definition step6_scale :: "real \<Rightarrow> pydict \<Rightarrow> error + pydict" where
  "step6_scale scale_factor stock =
     and_then (get_num stock ''quantity'')
       (\<lambda>q. Inr (stock(''quantity'' \<mapsto> Num (of_int \<lfloor>q * scale_factor\<rfloor>))))"

text \<open>Step 7: the three amounts of the final allocation, written one after the
  other.\<close>

definition set_capital_allocated :: "pydict \<Rightarrow> error + pydict" where
  "set_capital_allocated stock =
     and_then (get_item stock ''quantity'') (\<lambda>q_v.
     and_then (get_item stock ''entry_price'') (\<lambda>entry_v.
     and_then (as_num q_v) (\<lambda>q.
     and_then (as_num entry_v) (\<lambda>entry.
       Inr (stock(''capital_allocated'' \<mapsto> Num (q * entry)))))))"

definition set_max_loss :: "pydict \<Rightarrow> error + pydict" where
  "set_max_loss stock =
     and_then (get_item stock ''quantity'') (\<lambda>q_v.
     and_then (get_item stock ''entry_price'') (\<lambda>entry_v.
     and_then (get_item stock ''stop_loss'') (\<lambda>sl_v.
     and_then (as_num entry_v) (\<lambda>entry.
     and_then (as_num sl_v) (\<lambda>sl.
     and_then (as_num q_v) (\<lambda>q.
       Inr (stock(''max_loss'' \<mapsto> Num (q * \<bar>entry - sl\<bar>)))))))))"

definition set_target_profit :: "pydict \<Rightarrow> error + pydict" where
  "set_target_profit stock =
     and_then (get_item stock ''quantity'') (\<lambda>q_v.
     and_then (get_item stock ''target'') (\<lambda>tg_v.
     and_then (get_item stock ''entry_price'') (\<lambda>entry_v.
     and_then (as_num tg_v) (\<lambda>tg.
     and_then (as_num entry_v) (\<lambda>entry.
     and_then (as_num q_v) (\<lambda>q.
       Inr (stock(''target_profit'' \<mapsto> Num (q * \<bar>tg - entry\<bar>)))))))))"

definition step7_finalize :: "pydict \<Rightarrow> error + pydict" where
  "step7_finalize stock =
     and_then (set_capital_allocated stock) (\<lambda>stock1.
     and_then (set_max_loss stock1) set_target_profit)"

definition has_quantity :: "pydict \<Rightarrow> error + bool" where
  "has_quantity stock = and_then (get_num stock ''quantity'') (\<lambda>q. Inr (0 < q))"

text \<open>
  \<open>allocate_capital\<close>. The result is the store after the call and the returned list
  of addresses; \<open>Inl\<close> is a raised exception, and then the model gives no store (the
  dictionaries keep what the loops wrote before the exception, and the caller gets no
  list). The division by \<open>capital_used\<close> is the one division of the method that no
  guard protects. The second sum of step 6 is computed as in the source, and its value
  is not used.
\<close>

definition allocate_capital ::
  "'x allocator_scheme \<Rightarrow> addr list \<Rightarrow> store \<Rightarrow> error + (store \<times> addr list)" where
  "allocate_capital A stocks h =
     (if stocks = [] then Inr (h, [])
      else
        and_then (sum_over (\<lambda>stock. get_num stock ''confidence'') h stocks) (\<lambda>total_confidence.
        and_then (for_each (step1_weight total_confidence (length stocks)) stocks h) (\<lambda>h1.
        let max_basket_loss = total_capital A * (basket_loss_percent A / 100) in
        and_then (for_each (step2_loss_cap max_basket_loss) stocks h1) (\<lambda>h2.
        and_then (for_each (step3_levels A) stocks h2) (\<lambda>h3.
        and_then (for_each step4_raw_quantity stocks h3) (\<lambda>h4.
        let max_capital_per_stock = total_capital A * (capital_cap_percent A / 100) in
        and_then (for_each (step5_capital_cap max_capital_per_stock) stocks h4) (\<lambda>h5.
        and_then (sum_over position_value h5 stocks) (\<lambda>capital_used.
        and_then
          (if total_capital A < capital_used then
             (if capital_used = 0 then Inl ZeroDivisionError
              else
                let scale_factor = total_capital A / capital_used in
                and_then (for_each (step6_scale scale_factor) stocks h5) (\<lambda>h6.
                and_then (sum_over position_value h6 stocks) (\<lambda>capital_used1. Inr h6)))
           else Inr h5) (\<lambda>h6.
        and_then (for_each step7_finalize stocks h6) (\<lambda>h7.
        and_then (select_where has_quantity h7 stocks) (\<lambda>allocated_stocks.
          Inr (h7, allocated_stocks))))))))))))"

section \<open>Expectancy (\<open>stock_allocator.calculate_expectancy\<close>)\<close>

text \<open>
  The result dictionary. The early return for an empty input has no \<open>wins\<close> and
  \<open>losses\<close> keys, so these two are optional.
\<close>

record stats =
  win_rate :: real
  avg_win :: real
  avg_loss :: real
  expectancy :: real
  signal_strength :: real
  total_trades :: nat
  wins :: "nat option"
  losses :: "nat option"

definition calculate_expectancy :: "'a trade_scheme list \<Rightarrow> stats" where
  "calculate_expectancy trades =
     (if trades = [] then
        \<lparr>win_rate = 0, avg_win = 0, avg_loss = 0, expectancy = 0,
         signal_strength = 0, total_trades = 0, wins = None, losses = None\<rparr>
      else
        let ws = map net_pnl (filter (\<lambda>t. net_pnl t > 0) trades);
            ls = map net_pnl (filter (\<lambda>t. net_pnl t < 0) trades);
            wr = real (length ws) / real (length trades);
            loss_rate = real (length ls) / real (length trades);
            aw = (if ws \<noteq> [] then sum_list ws / real (length ws) else 0);
            al = (if ls \<noteq> [] then \<bar>sum_list ls / real (length ls)\<bar> else 0);
            ex = wr * aw - loss_rate * al;
            ss = max 0 ex
        in \<lparr>win_rate = wr * 100, avg_win = aw, avg_loss = al, expectancy = ex,
            signal_strength = ss, total_trades = length trades,
            wins = Some (length ws), losses = Some (length ls)\<rparr>)"

section \<open>Vocabulary of the properties\<close>

subsection \<open>Rows of a candle series\<close>

text \<open>The test of the entry loop: the time of the row parses and is at or after
  \<open>entry_start\<close>.\<close>

definition qualifies :: "time_parser \<Rightarrow> tod \<Rightarrow> 'a candle_scheme \<Rightarrow> bool" where
  "qualifies strptime start c =
     (case strptime (Time c) of None \<Rightarrow> False | Some t \<Rightarrow> start \<le> t)"

text \<open>A row on which the body of the exit scan reaches no \<open>break\<close>: its time does not
  parse, or it is before the force-exit time and neither level is touched.\<close>

definition no_exit ::
  "time_parser \<Rightarrow> tod \<Rightarrow> string \<Rightarrow> real \<Rightarrow> real \<Rightarrow> 'a candle_scheme \<Rightarrow> bool" where
  "no_exit strptime fe b sl tg c =
     (case strptime (Time c) of
        None \<Rightarrow> True
      | Some t \<Rightarrow> t < fe \<and> (if b = ''BULLISH'' then sl < Low c \<and> High c < tg
                             else High c < sl \<and> tg < Low c))"

text \<open>A row that crosses the stop loss and the target.\<close>

definition crosses_both :: "string \<Rightarrow> real \<Rightarrow> real \<Rightarrow> 'a candle_scheme \<Rightarrow> bool" where
  "crosses_both b sl tg c =
     (if b = ''BULLISH'' then Low c \<le> sl \<and> tg \<le> High c else sl \<le> High c \<and> Low c \<le> tg)"

subsection \<open>Reading a stock dictionary\<close>

text \<open>The number under a key (0 when there is none), and whether there is one.\<close>

definition numv :: "pydict \<Rightarrow> string \<Rightarrow> real" where
  "numv d k = (case d k of Some (Num x) \<Rightarrow> x | _ \<Rightarrow> 0)"

definition is_num :: "pydict \<Rightarrow> string \<Rightarrow> bool" where
  "is_num d k = (case d k of Some (Num x) \<Rightarrow> True | _ \<Rightarrow> False)"

text \<open>A position candidate, as the docstring of \<open>allocate_capital\<close> describes it:
  numbers under \<open>entry_price\<close> and \<open>confidence\<close>, and a \<open>bias\<close>.\<close>

definition candidate :: "pydict \<Rightarrow> bool" where
  "candidate d = (is_num d ''entry_price'' \<and> is_num d ''confidence'' \<and> d ''bias'' \<noteq> None)"

text \<open>The keys \<open>allocate_capital\<close> writes.\<close>

definition added_keys :: "string list" where
  "added_keys = [''weight'', ''loss_cap'', ''stop_loss'', ''target'', ''raw_quantity'', ''quantity'',
                 ''capital_allocated'', ''max_loss'', ''target_profit'']"

text \<open>\<open>total_confidence\<close> of step 1.\<close>

definition total_conf :: "store \<Rightarrow> addr list \<Rightarrow> real" where
  "total_conf h stocks = sum_list (map (\<lambda>a. numv (h a) ''confidence'') stocks)"

subsection \<open>What the loops of \<open>allocate_capital\<close> compute\<close>

text \<open>
  The functions below describe the effect of the steps on one candidate dictionary,
  without the error branches; the lemmas of the next section show that the steps of
  the model compute them on candidates. \<open>on_all w as h\<close> is the store after a loop
  whose body rewrites a dictionary \<open>d\<close> to \<open>w d\<close> and gives the same result when it
  meets the same dictionary again.
\<close>

definition on_all :: "(pydict \<Rightarrow> pydict) \<Rightarrow> addr list \<Rightarrow> store \<Rightarrow> store" where
  "on_all w as h = (\<lambda>a. if a \<in> set as then w (h a) else h a)"

definition upd1 :: "real \<Rightarrow> nat \<Rightarrow> pydict \<Rightarrow> pydict" where
  "upd1 S n d = d(''weight'' \<mapsto> Num (if 0 < S then numv d ''confidence'' / S else 1 / real n))"

definition upd2 :: "real \<Rightarrow> pydict \<Rightarrow> pydict" where
  "upd2 M d = d(''loss_cap'' \<mapsto> Num (M * numv d ''weight''))"

definition upd3 :: "'x allocator_scheme \<Rightarrow> pydict \<Rightarrow> pydict" where
  "upd3 A d =
     (let e = numv d ''entry_price'' in
      if d ''bias'' = Some (Str ''BULLISH'') then
        d(''stop_loss'' \<mapsto> Num (e * (1 - stop_loss_percent A / 100)),
          ''target'' \<mapsto> Num (e + (e - e * (1 - stop_loss_percent A / 100)) * risk_reward_ratio A))
      else
        d(''stop_loss'' \<mapsto> Num (e * (1 + stop_loss_percent A / 100)),
          ''target'' \<mapsto> Num (e - (e * (1 + stop_loss_percent A / 100) - e) * risk_reward_ratio A)))"

definition upd4 :: "pydict \<Rightarrow> pydict" where
  "upd4 d = d(''raw_quantity'' \<mapsto> Num
     (if 0 < \<bar>numv d ''entry_price'' - numv d ''stop_loss''\<bar>
      then numv d ''loss_cap'' / \<bar>numv d ''entry_price'' - numv d ''stop_loss''\<bar> else 0))"

definition capped_shares :: "real \<Rightarrow> real \<Rightarrow> real \<Rightarrow> int" where
  "capped_shares C entry raw =
     (let floored_qty = \<lfloor>min raw (if 0 < entry then C / entry else 0)\<rfloor>
      in if 0 < floored_qty then floored_qty else if entry \<le> C then 1 else 0)"

definition upd5 :: "real \<Rightarrow> pydict \<Rightarrow> pydict" where
  "upd5 C d =
     d(''quantity'' \<mapsto> Num (of_int (capped_shares C (numv d ''entry_price'') (numv d ''raw_quantity''))))"

definition upd7 :: "pydict \<Rightarrow> pydict" where
  "upd7 d =
     d(''capital_allocated'' \<mapsto> Num (numv d ''quantity'' * numv d ''entry_price''),
       ''max_loss'' \<mapsto> Num (numv d ''quantity'' * \<bar>numv d ''entry_price'' - numv d ''stop_loss''\<bar>),
       ''target_profit'' \<mapsto> Num (numv d ''quantity'' * \<bar>numv d ''target'' - numv d ''entry_price''\<bar>))"

text \<open>A candidate after steps 1 to 5, for the total confidence \<open>S\<close> and \<open>n\<close>
  list elements.\<close>

definition prep :: "'x allocator_scheme \<Rightarrow> real \<Rightarrow> nat \<Rightarrow> pydict \<Rightarrow> pydict" where
  "prep A S n d =
     upd5 (total_capital A * (capital_cap_percent A / 100))
       (upd4 (upd3 A (upd2 (total_capital A * (basket_loss_percent A / 100)) (upd1 S n d))))"

text \<open>\<open>capital_used\<close> of step 6, before any scaling.\<close>

definition used5 :: "'x allocator_scheme \<Rightarrow> store \<Rightarrow> addr list \<Rightarrow> real" where
  "used5 A h stocks =
     sum_list (map (\<lambda>a. numv (prep A (total_conf h stocks) (length stocks) (h a)) ''quantity''
                        * numv (h a) ''entry_price'') stocks)"

text \<open>A candidate after step 7, when step 6 left it the quantity \<open>q\<close>.\<close>

definition final :: "'x allocator_scheme \<Rightarrow> real \<Rightarrow> nat \<Rightarrow> real \<Rightarrow> pydict \<Rightarrow> pydict" where
  "final A S n q d = upd7 ((prep A S n d)(''quantity'' \<mapsto> Num q))"

text \<open>
  The scaling loop is not idempotent: a dictionary the list names \<open>k\<close> times is scaled
  \<open>k\<close> times. \<open>scaled_from s d d'\<close> holds between a dictionary and what any number of
  scalings by \<open>s\<close> makes of it.
\<close>

definition scaled_from :: "real \<Rightarrow> pydict \<Rightarrow> pydict \<Rightarrow> bool" where
  "scaled_from s d d' =
     (\<exists>z::int. d' = d(''quantity'' \<mapsto> Num (of_int z))
        \<and> (0 \<le> s \<and> s \<le> 1 \<and> 0 \<le> numv d ''quantity''
             \<longrightarrow> 0 \<le> z \<and> of_int z \<le> numv d ''quantity'' * s))"

text \<open>The returned list and the values under some keys, of a call that returned.\<close>

definition outcome ::
  "error + (store \<times> addr list) \<Rightarrow> addr list \<Rightarrow> string list
     \<Rightarrow> error + (addr list \<times> pyval option list list)" where
  "outcome r as ks =
     (case r of Inl e \<Rightarrow> Inl e | Inr (h, out) \<Rightarrow> Inr (out, map (\<lambda>a. map (h a) ks) as))"

subsection \<open>Concrete inputs\<close>

text \<open>
  A parser for the form \<open>HH:MM:SS\<close> in which the fetcher writes the \<open>Time\<close> column;
  the concrete evaluations below use it for \<open>strptime\<close>.
\<close>

definition digit :: "char \<Rightarrow> nat option" where
  "digit c = (let n = of_char c :: nat in if 48 \<le> n \<and> n \<le> 57 then Some (n - 48) else None)"

definition two_digits :: "char \<Rightarrow> char \<Rightarrow> nat option" where
  "two_digits a b =
     (case digit a of
        None \<Rightarrow> None
      | Some x \<Rightarrow> (case digit b of None \<Rightarrow> None | Some y \<Rightarrow> Some (10 * x + y)))"

definition hms :: "string \<Rightarrow> tod option" where
  "hms s =
     (if length s = 8 \<and> s ! 2 = CHR '':'' \<and> s ! 5 = CHR '':'' then
        (case (two_digits (s ! 0) (s ! 1), two_digits (s ! 3) (s ! 4), two_digits (s ! 6) (s ! 7)) of
           (Some h, Some m, Some sec) \<Rightarrow>
             if h < 24 \<and> m < 60 \<and> sec < 60 then Some (h, m, sec) else None
         | _ \<Rightarrow> None)
      else None)"

text \<open>The values of \<open>ALGORITHM_CONFIG\<close> in \<open>config_real.py\<close>, which has no
  \<open>basket_loss_percent\<close>, \<open>basket_profit_percent\<close> and \<open>capital_cap_percent\<close>, so
  that the allocator takes its defaults 2, 4 and 30.\<close>

definition E0 :: engine where
  "E0 = \<lparr>stop_loss_percent = 2, capital_per_trade = 10000, target_percent = 4,
          slippage_percent = 0.1, transaction_cost_percent = 0.05,
          entry_start = (9, 20, 0), force_exit_time = (15, 15, 0)\<rparr>"

definition A0 :: allocator where
  "A0 = \<lparr>stop_loss_percent = 2, total_capital = 50000, basket_loss_percent = 2,
          basket_profit_percent = 4, risk_reward_ratio = 2, capital_cap_percent = 30\<rparr>"

text \<open>The same engine with a target of 0 percent, and the same allocator with a
  capital of 1000.\<close>

definition E_flat :: engine where
  "E_flat = E0\<lparr>target_percent := 0\<rparr>"

definition A1 :: allocator where
  "A1 = A0\<lparr>total_capital := 1000\<rparr>"

definition bar :: "string \<Rightarrow> real \<Rightarrow> real \<Rightarrow> real \<Rightarrow> real \<Rightarrow> candle" where
  "bar t opn hi lo cl = \<lparr>Time = t, Open = opn, High = hi, Low = lo, Close = cl\<rparr>"

definition entry0 :: entry_details where
  "entry0 = \<lparr>symbol = ''TCS'', entry_time = ''09:20:00'', entry_price = 100, quantity = 1,
     bias = ''BULLISH'', stop_loss = 98, target = 104, invested_amount = 100\<rparr>"

definition sample_trade :: trade where
  "sample_trade = \<lparr>symbol = ''TCS'', entry_time = ''09:20:00'', entry_price = 100, quantity = 1,
     bias = ''BULLISH'', stop_loss = 98, target = 104, invested_amount = 100,
     date = ''2024-01-02'', exit_time = ''15:15:00'', exit_price = 100,
     exit_reason = ''FORCE_EXIT_EOD'', gross_pnl = 0, transaction_cost = 0.1, net_pnl = 0,
     profit_or_loss = ''BREAKEVEN''\<rparr>"

text \<open>A candidate dictionary as the day orchestrator builds it, and four stores:
  confidences 90, 60, 30; confidences 0; three stocks of which two get a loss cap below
  the risk of one share; and two stocks of which one costs more than the capital cap.\<close>

definition stock_dict :: "string \<Rightarrow> real \<Rightarrow> real \<Rightarrow> string \<Rightarrow> pydict" where
  "stock_dict name price conf b =
     [''symbol'' \<mapsto> Str name, ''entry_price'' \<mapsto> Num price, ''confidence'' \<mapsto> Num conf,
      ''bias'' \<mapsto> Str b, ''stock_data'' \<mapsto> Obj 0]"

definition h0 :: store where
  "h0 = (\<lambda>a. Map.empty)(0 := stock_dict ''TCS'' 100 90 ''BULLISH'',
                           1 := stock_dict ''INFY'' 250.5 60 ''BEARISH'',
                           2 := stock_dict ''SBIN'' 1200 30 ''BULLISH'')"

definition hz :: store where
  "hz = (\<lambda>a. Map.empty)(0 := stock_dict ''TCS'' 100 0 ''BULLISH'',
                           1 := stock_dict ''INFY'' 250.5 0 ''BEARISH'')"

definition h2 :: store where
  "h2 = (\<lambda>a. Map.empty)(0 := stock_dict ''TCS'' 290 80 ''BULLISH'',
                           1 := stock_dict ''INFY'' 290 10 ''BEARISH'',
                           2 := stock_dict ''SBIN'' 290 10 ''BULLISH'')"

definition h3 :: store where
  "h3 = (\<lambda>a. Map.empty)(0 := stock_dict ''TCS'' 100 50 ''BULLISH'',
                           1 := stock_dict ''MRF'' 400 50 ''BEARISH'')"

section \<open>Lemmas on the simulator and on rounding\<close>

lemma find_entry_idx_less: "find_entry_idx t cs = Some i \<Longrightarrow> i < length cs"
  by (induction cs arbitrary: i) (auto split: if_splits)

lemma scan_exit_skip:
  "\<forall>x\<in>set pre. no_exit strptime fe b sl tg x \<Longrightarrow>
   scan_exit strptime fe b sl tg (pre @ rest) = scan_exit strptime fe b sl tg rest"
  by (induction pre) (auto simp: no_exit_def split: option.splits)

lemma scan_exit_quiet:
  "\<forall>x\<in>set cs. no_exit strptime fe b sl tg x \<Longrightarrow> scan_exit strptime fe b sl tg cs = None"
  using scan_exit_skip[of cs strptime fe b sl tg "[]"] by simp

lemma scan_exit_both:
  "strptime (Time c) = Some t \<Longrightarrow> t < fe \<Longrightarrow> crosses_both b sl tg c \<Longrightarrow>
   scan_exit strptime fe b sl tg (c # post) = Some (sl, Time c, ''STOP_LOSS'')"
  by (auto simp: crosses_both_def)

lemma round_half_even_nonneg: "0 \<le> x \<Longrightarrow> 0 \<le> round_half_even x"
  by (auto simp: round_half_even_def Let_def)

lemma round_half_even_nonpos: "x \<le> 0 \<Longrightarrow> round_half_even x \<le> 0"
proof -
  assume x: "x \<le> 0"
  show ?thesis
  proof (cases "x = of_int \<lfloor>x\<rfloor>")
    case True
    then show ?thesis using x by (simp add: round_half_even_def Let_def)
  next
    case False
    moreover have "of_int \<lfloor>x\<rfloor> \<le> x" by (rule of_int_floor_le)
    ultimately have "of_int \<lfloor>x\<rfloor> < x" by linarith
    then have "of_int \<lfloor>x\<rfloor> < (0::real)" using x by linarith
    then have "\<lfloor>x\<rfloor> + 1 \<le> 0" by linarith
    moreover have "\<lfloor>x\<rfloor> \<le> 0" using x by linarith
    ultimately show ?thesis by (auto simp: round_half_even_def Let_def)
  qed
qed

lemma py_round2_nonneg: "0 \<le> x \<Longrightarrow> 0 \<le> py_round2 x"
  using round_half_even_nonneg[of "x * 100"] by (simp add: py_round2_def)

lemma py_round2_nonpos: "x \<le> 0 \<Longrightarrow> py_round2 x \<le> 0"
  using round_half_even_nonpos[of "x * 100"] by (simp add: py_round2_def divide_le_0_iff)

section \<open>Lemmas on the loops of the allocator\<close>

lemma is_numD: "is_num d k \<Longrightarrow> d k = Some (Num (numv d k))"
  by (auto simp: is_num_def numv_def split: option.splits pyval.splits)

lemma get_num_ok: "is_num d k \<Longrightarrow> get_num d k = Inr (numv d k)"
  by (auto simp: get_num_def get_item_def as_num_def and_then_def is_num_def numv_def split: option.splits pyval.splits)

lemma get_item_num: "is_num d k \<Longrightarrow> get_item d k = Inr (Num (numv d k))"
  by (auto simp: get_item_def is_num_def numv_def split: option.splits pyval.splits)

lemma as_num_Num: "as_num (Num x) = Inr x"
  by (simp add: as_num_def)

lemma and_then_Inr: "and_then (Inr x) f = f x"
  by (simp add: and_then_def)

lemma is_num_upd: "is_num (d(k \<mapsto> v)) k' = (if k' = k then (case v of Num x \<Rightarrow> True | _ \<Rightarrow> False) else is_num d k')"
  by (simp add: is_num_def)

lemma numv_upd: "numv (d(k \<mapsto> Num x)) k' = (if k' = k then x else numv d k')"
  by (simp add: numv_def)

lemma for_each_rel:
  assumes step: "\<And>d. P d \<Longrightarrow> \<exists>d'. body d = Inr d' \<and> P d' \<and> R d d'"
    and trans: "\<And>a b c. R a b \<Longrightarrow> R b c \<Longrightarrow> R a c"
  shows "\<forall>a\<in>set as. P (h a) \<Longrightarrow>
         \<exists>h'. for_each body as h = Inr h' \<and> (\<forall>a. a \<notin> set as \<longrightarrow> h' a = h a)
              \<and> (\<forall>a\<in>set as. P (h' a) \<and> R (h a) (h' a))"
proof (induction as arbitrary: h)
  case Nil
  then show ?case by simp
next
  case (Cons a as)
  from Cons.prems have "P (h a)" by simp
  from step[OF this] obtain d' where d': "body (h a) = Inr d'" "P d'" "R (h a) d'" by blast
  let ?h1 = "h(a := d')"
  have "\<forall>b\<in>set as. P (?h1 b)" using Cons.prems d'(2) by simp
  from Cons.IH[OF this] obtain h' where h':
    "for_each body as ?h1 = Inr h'" "\<forall>b. b \<notin> set as \<longrightarrow> h' b = ?h1 b"
    "\<forall>b\<in>set as. P (h' b) \<and> R (?h1 b) (h' b)" by blast
  have run: "for_each body (a # as) h = Inr h'"
    using d'(1) h'(1) by (simp add: and_then_def)
  have frame: "\<forall>b. b \<notin> set (a # as) \<longrightarrow> h' b = h b"
    using h'(2) by simp
  have "P (h' b) \<and> R (h b) (h' b)" if b: "b \<in> set (a # as)" for b
  proof (cases "b \<in> set as")
    case True
    with h'(3) have *: "P (h' b)" "R (?h1 b) (h' b)" by auto
    show ?thesis
    proof (cases "b = a")
      case True
      with * d'(3) trans show ?thesis by auto
    next
      case False
      with * show ?thesis by simp
    qed
  next
    case False
    with b have "b = a" by simp
    with False h'(2) d' show ?thesis by simp
  qed
  with run frame show ?case by blast
qed

lemma for_each_idem:
  assumes ok: "\<And>d. P d \<Longrightarrow> body d = Inr (w d)"
    and keep: "\<And>d. P d \<Longrightarrow> P (w d)"
    and idem: "\<And>d. P d \<Longrightarrow> w (w d) = w d"
    and pre: "\<forall>a\<in>set as. P (h a)"
  shows "for_each body as h = Inr (on_all w as h)"
proof -
  have "\<exists>h'. for_each body as h = Inr h' \<and> (\<forall>a. a \<notin> set as \<longrightarrow> h' a = h a)
              \<and> (\<forall>a\<in>set as. P (h' a) \<and> (P (h a) \<and> h' a = w (h a)))"
    by (rule for_each_rel[where R = "\<lambda>d d'. P d \<and> d' = w d"]) (use ok keep idem pre in auto)
  then obtain h' where h': "for_each body as h = Inr h'" "\<forall>a. a \<notin> set as \<longrightarrow> h' a = h a"
     "\<forall>a\<in>set as. h' a = w (h a)" by blast
  have "h' = on_all w as h"
    using h'(2,3) by (auto simp: on_all_def)
  with h'(1) show ?thesis by simp
qed

lemma sum_over_ok:
  "\<forall>a\<in>set as. term (h a) = Inr (v (h a)) \<Longrightarrow> sum_over term h as = Inr (sum_list (map (\<lambda>a. v (h a)) as))"
  by (induction as) (auto simp: and_then_def)

lemma select_where_ok:
  "\<forall>a\<in>set as. cond (h a) = Inr (p (h a)) \<Longrightarrow> select_where cond h as = Inr (filter (\<lambda>a. p (h a)) as)"
  by (induction as) (auto simp: and_then_def)

lemmas run_simps = get_num_ok get_item_num as_num_Num and_then_Inr is_num_upd numv_upd

lemma step1_ok: "is_num d ''confidence'' \<Longrightarrow> step1_weight S n d = Inr (upd1 S n d)"
  by (simp add: step1_weight_def upd1_def run_simps)

lemma step2_ok: "is_num d ''weight'' \<Longrightarrow> step2_loss_cap M d = Inr (upd2 M d)"
  by (simp add: step2_loss_cap_def upd2_def run_simps)

lemma get_item_bias: "d ''bias'' = Some b \<Longrightarrow> get_item d ''bias'' = Inr b"
  by (simp add: get_item_def)

lemma step3_ok:
  assumes "is_num d ''entry_price''" "d ''bias'' \<noteq> None"
  shows "step3_levels A d = Inr (upd3 A d)"
proof -
  from assms(2) obtain b where b: "d ''bias'' = Some b" by auto
  show ?thesis
    using assms(1) b
    by (simp add: step3_levels_def upd3_def run_simps get_item_bias Let_def)
qed

lemma step4_ok:
  "is_num d ''entry_price'' \<Longrightarrow> is_num d ''stop_loss'' \<Longrightarrow> is_num d ''loss_cap'' \<Longrightarrow>
   step4_raw_quantity d = Inr (upd4 d)"
  by (simp add: step4_raw_quantity_def upd4_def run_simps Let_def)

lemma step5_ok:
  "is_num d ''entry_price'' \<Longrightarrow> is_num d ''raw_quantity'' \<Longrightarrow> step5_capital_cap C d = Inr (upd5 C d)"
  by (simp add: step5_capital_cap_def upd5_def capped_shares_def run_simps Let_def)

lemma step7_ok:
  "is_num d ''quantity'' \<Longrightarrow> is_num d ''entry_price'' \<Longrightarrow> is_num d ''stop_loss'' \<Longrightarrow> is_num d ''target'' \<Longrightarrow>
   step7_finalize d = Inr (upd7 d)"
  by (simp add: step7_finalize_def set_capital_allocated_def set_max_loss_def set_target_profit_def
        upd7_def run_simps)

lemma position_value_ok:
  "is_num d ''quantity'' \<Longrightarrow> is_num d ''entry_price'' \<Longrightarrow>
   position_value d = Inr (numv d ''quantity'' * numv d ''entry_price'')"
  by (simp add: position_value_def run_simps)

lemma has_quantity_ok: "is_num d ''quantity'' \<Longrightarrow> has_quantity d = Inr (0 < numv d ''quantity'')"
  by (simp add: has_quantity_def run_simps)

lemma capped_shares_nonneg: "0 \<le> capped_shares C e r"
  by (simp add: capped_shares_def Let_def)

lemma upd1_facts: "is_num d k \<Longrightarrow> is_num (upd1 S n d) k"
  "upd1 S n (upd1 S n d) = upd1 S n d"
  "is_num (upd1 S n d) ''weight''" "candidate d \<Longrightarrow> candidate (upd1 S n d)"
  by (simp_all add: upd1_def is_num_upd numv_upd candidate_def)

lemma upd2_facts: "is_num d k \<Longrightarrow> is_num (upd2 M d) k"
  "upd2 M (upd2 M d) = upd2 M d"
  "is_num (upd2 M d) ''loss_cap''" "candidate d \<Longrightarrow> candidate (upd2 M d)"
  by (simp_all add: upd2_def is_num_upd numv_upd candidate_def)

lemma upd3_facts:
  "is_num d k \<Longrightarrow> is_num (upd3 A d) k"
  "(upd3 A d) ''bias'' = d ''bias''"
  "upd3 A (upd3 A d) = upd3 A d"
  "is_num (upd3 A d) ''stop_loss''" "is_num (upd3 A d) ''target''"
  "candidate d \<Longrightarrow> candidate (upd3 A d)"
  by (simp_all add: upd3_def is_num_upd numv_upd candidate_def Let_def)

lemma upd4_facts:
  "is_num d k \<Longrightarrow> is_num (upd4 d) k"
  "upd4 (upd4 d) = upd4 d"
  "is_num (upd4 d) ''raw_quantity''" "candidate d \<Longrightarrow> candidate (upd4 d)"
  by (simp_all add: upd4_def is_num_upd numv_upd candidate_def)

lemma upd5_facts:
  "is_num d k \<Longrightarrow> is_num (upd5 C d) k"
  "upd5 C (upd5 C d) = upd5 C d"
  "is_num (upd5 C d) ''quantity''" "candidate d \<Longrightarrow> candidate (upd5 C d)"
  "0 \<le> numv (upd5 C d) ''quantity''"
  by (simp_all add: upd5_def is_num_upd numv_upd candidate_def capped_shares_nonneg)

lemma upd7_facts:
  "is_num d k \<Longrightarrow> is_num (upd7 d) k"
  "upd7 (upd7 d) = upd7 d"
  by (simp_all add: upd7_def is_num_upd numv_upd)

lemma prep_entry: "numv (prep A S n d) ''entry_price'' = numv d ''entry_price''"
  by (simp add: prep_def upd5_def upd4_def upd3_def upd2_def upd1_def numv_upd Let_def)

lemma prep_facts:
  assumes "candidate d"
  shows "is_num (prep A S n d) ''entry_price''" "is_num (prep A S n d) ''quantity''"
    "is_num (prep A S n d) ''stop_loss''" "is_num (prep A S n d) ''target''"
    "0 \<le> numv (prep A S n d) ''quantity''"
  using assms unfolding prep_def candidate_def
  by (simp_all only: upd5_facts upd4_facts upd3_facts upd2_facts upd1_facts)

lemma bias_kept: "(upd1 S n d) ''bias'' = d ''bias''" "(upd2 M d) ''bias'' = d ''bias''"
  by (simp_all add: upd1_def upd2_def)

lemma loop1:
  "\<forall>a\<in>set as. is_num (g a) ''confidence'' \<Longrightarrow>
   for_each (step1_weight S n) as g = Inr (on_all (upd1 S n) as g)"
  by (rule for_each_idem[where P = "\<lambda>d. is_num d ''confidence''"])
     (auto simp: step1_ok upd1_facts)

lemma loop2:
  "\<forall>a\<in>set as. is_num (g a) ''weight'' \<Longrightarrow>
   for_each (step2_loss_cap M) as g = Inr (on_all (upd2 M) as g)"
  by (rule for_each_idem[where P = "\<lambda>d. is_num d ''weight''"])
     (auto simp: step2_ok upd2_facts)

lemma loop3:
  "\<forall>a\<in>set as. is_num (g a) ''entry_price'' \<and> g a ''bias'' \<noteq> None \<Longrightarrow>
   for_each (step3_levels A) as g = Inr (on_all (upd3 A) as g)"
  by (rule for_each_idem[where P = "\<lambda>d. is_num d ''entry_price'' \<and> d ''bias'' \<noteq> None"])
     (auto simp: step3_ok upd3_facts)

lemma loop4:
  "\<forall>a\<in>set as. is_num (g a) ''entry_price'' \<and> is_num (g a) ''stop_loss'' \<and> is_num (g a) ''loss_cap'' \<Longrightarrow>
   for_each step4_raw_quantity as g = Inr (on_all upd4 as g)"
  by (rule for_each_idem[where P = "\<lambda>d. is_num d ''entry_price'' \<and> is_num d ''stop_loss'' \<and> is_num d ''loss_cap''"])
     (auto simp: step4_ok upd4_facts)

lemma loop5:
  "\<forall>a\<in>set as. is_num (g a) ''entry_price'' \<and> is_num (g a) ''raw_quantity'' \<Longrightarrow>
   for_each (step5_capital_cap C) as g = Inr (on_all (upd5 C) as g)"
  by (rule for_each_idem[where P = "\<lambda>d. is_num d ''entry_price'' \<and> is_num d ''raw_quantity''"])
     (auto simp: step5_ok upd5_facts)

lemma loop7:
  "\<forall>a\<in>set as. is_num (g a) ''quantity'' \<and> is_num (g a) ''entry_price'' \<and> is_num (g a) ''stop_loss''
       \<and> is_num (g a) ''target'' \<Longrightarrow>
   for_each step7_finalize as g = Inr (on_all upd7 as g)"
  by (rule for_each_idem[where P = "\<lambda>d. is_num d ''quantity'' \<and> is_num d ''entry_price'' \<and> is_num d ''stop_loss''
       \<and> is_num d ''target''"])
     (auto simp: step7_ok upd7_facts)

lemma on_all_prep:
  "on_all (upd5 (total_capital A * (capital_cap_percent A / 100))) as
     (on_all upd4 as (on_all (upd3 A) as
        (on_all (upd2 (total_capital A * (basket_loss_percent A / 100))) as (on_all (upd1 S n) as h))))
   = on_all (prep A S n) as h"
  by (auto simp: on_all_def prep_def)

lemma steps_1_to_5:
  assumes cand: "\<forall>a\<in>set stocks. candidate (h a)"
  shows "and_then (for_each (step1_weight S n) stocks h) (\<lambda>h1.
         and_then (for_each (step2_loss_cap (total_capital A * (basket_loss_percent A / 100))) stocks h1) (\<lambda>h2.
         and_then (for_each (step3_levels A) stocks h2) (\<lambda>h3.
         and_then (for_each step4_raw_quantity stocks h3) (\<lambda>h4.
         and_then (for_each (step5_capital_cap (total_capital A * (capital_cap_percent A / 100))) stocks h4) k))))
       = k (on_all (prep A S n) stocks h)"
proof -
  let ?M = "total_capital A * (basket_loss_percent A / 100)"
  let ?C = "total_capital A * (capital_cap_percent A / 100)"
  let ?h1 = "on_all (upd1 S n) stocks h"
  let ?h2 = "on_all (upd2 ?M) stocks ?h1"
  let ?h3 = "on_all (upd3 A) stocks ?h2"
  let ?h4 = "on_all upd4 stocks ?h3"
  have 1: "for_each (step1_weight S n) stocks h = Inr ?h1"
    by (rule loop1) (use cand in \<open>simp add: candidate_def\<close>)
  have 2: "for_each (step2_loss_cap ?M) stocks ?h1 = Inr ?h2"
    by (rule loop2) (simp add: on_all_def upd1_facts)
  have 3: "for_each (step3_levels A) stocks ?h2 = Inr ?h3"
    by (rule loop3) (use cand in \<open>simp add: on_all_def candidate_def upd1_facts upd2_facts bias_kept\<close>)
  have 4: "for_each step4_raw_quantity stocks ?h3 = Inr ?h4"
    by (rule loop4) (use cand in \<open>simp add: on_all_def candidate_def upd1_facts upd2_facts upd3_facts\<close>)
  have 5: "for_each (step5_capital_cap ?C) stocks ?h4 = Inr (on_all (upd5 ?C) stocks ?h4)"
    by (rule loop5) (use cand in \<open>simp add: on_all_def candidate_def upd1_facts upd2_facts upd3_facts upd4_facts\<close>)
  show ?thesis
    unfolding 1 and_then_Inr 2 3 4 5 on_all_prep ..
qed

lemma numv_upd7_quantity: "numv (upd7 d) ''quantity'' = numv d ''quantity''"
  by (simp add: upd7_def numv_upd)

lemma finish:
  assumes "\<forall>a\<in>set stocks. is_num (g a) ''quantity'' \<and> is_num (g a) ''entry_price''
             \<and> is_num (g a) ''stop_loss'' \<and> is_num (g a) ''target''"
  shows "and_then (for_each step7_finalize stocks g) (\<lambda>h7.
         and_then (select_where has_quantity h7 stocks) (\<lambda>allocated_stocks.
           Inr (h7, allocated_stocks)))
       = Inr (on_all upd7 stocks g, filter (\<lambda>a. 0 < numv (g a) ''quantity'') stocks)"
proof -
  have 7: "for_each step7_finalize stocks g = Inr (on_all upd7 stocks g)"
    by (rule loop7) (use assms in simp)
  have "\<forall>a\<in>set stocks. has_quantity (on_all upd7 stocks g a)
          = Inr (0 < numv (on_all upd7 stocks g a) ''quantity'')"
    using assms by (simp add: on_all_def has_quantity_ok upd7_facts)
  then have sel: "select_where has_quantity (on_all upd7 stocks g) stocks
          = Inr (filter (\<lambda>a. 0 < numv (on_all upd7 stocks g a) ''quantity'') stocks)"
    by (rule select_where_ok)
  have "filter (\<lambda>a. 0 < numv (on_all upd7 stocks g a) ''quantity'') stocks
        = filter (\<lambda>a. 0 < numv (g a) ''quantity'') stocks"
    by (rule filter_cong) (simp_all add: on_all_def numv_upd7_quantity)
  with 7 sel show ?thesis by (simp add: and_then_Inr)
qed

lemma scaled_from_trans:
  assumes ab: "scaled_from s a b" and bc: "scaled_from s b c"
  shows "scaled_from s a c"
proof -
  from ab obtain z1 :: int where z1: "b = a(''quantity'' \<mapsto> Num (of_int z1))"
    "0 \<le> s \<and> s \<le> 1 \<and> 0 \<le> numv a ''quantity''
       \<longrightarrow> 0 \<le> z1 \<and> of_int z1 \<le> numv a ''quantity'' * s"
    unfolding scaled_from_def by blast
  from bc obtain z2 :: int where z2: "c = b(''quantity'' \<mapsto> Num (of_int z2))"
    "0 \<le> s \<and> s \<le> 1 \<and> 0 \<le> numv b ''quantity''
       \<longrightarrow> 0 \<le> z2 \<and> of_int z2 \<le> numv b ''quantity'' * s"
    unfolding scaled_from_def by blast
  have nb: "numv b ''quantity'' = of_int z1" using z1(1) by (simp add: numv_upd)
  have c: "c = a(''quantity'' \<mapsto> Num (of_int z2))" using z1(1) z2(1) by simp
  have "0 \<le> z2 \<and> of_int z2 \<le> numv a ''quantity'' * s"
    if s: "0 \<le> s" "s \<le> 1" and a: "0 \<le> numv a ''quantity''"
  proof -
    from z1(2) s a have 1: "0 \<le> z1" "of_int z1 \<le> numv a ''quantity'' * s" by simp_all
    with z2(2) s nb have 2: "0 \<le> z2" "of_int z2 \<le> real_of_int z1 * s" by simp_all
    have "real_of_int z1 * s \<le> real_of_int z1 * 1"
      by (rule mult_left_mono) (use s 1(1) in simp_all)
    with 1(2) 2 show ?thesis by simp
  qed
  with c show ?thesis unfolding scaled_from_def by blast
qed

lemma step6_scaled:
  assumes "is_num d ''quantity''"
  shows "\<exists>d'. step6_scale s d = Inr d' \<and> is_num d' ''quantity'' \<and> scaled_from s d d'"
proof -
  let ?z = "\<lfloor>numv d ''quantity'' * s\<rfloor>"
  have "0 \<le> ?z" if "0 \<le> s" "0 \<le> numv d ''quantity''"
    using that by simp
  moreover have "of_int ?z \<le> numv d ''quantity'' * s" by (rule of_int_floor_le)
  ultimately show ?thesis
    using assms
    by (auto simp: step6_scale_def get_num_ok and_then_Inr scaled_from_def is_num_upd)
qed

lemma rescale:
  assumes pre: "\<forall>a\<in>set stocks. is_num (g a) ''quantity''"
  shows "\<exists>h6. for_each (step6_scale s) stocks g = Inr h6 \<and> (\<forall>a. a \<notin> set stocks \<longrightarrow> h6 a = g a)
             \<and> (\<forall>a\<in>set stocks. scaled_from s (g a) (h6 a))"
proof -
  have "\<exists>h'. for_each (step6_scale s) stocks g = Inr h' \<and> (\<forall>a. a \<notin> set stocks \<longrightarrow> h' a = g a)
              \<and> (\<forall>a\<in>set stocks. is_num (h' a) ''quantity'' \<and> scaled_from s (g a) (h' a))"
    by (rule for_each_rel[where P = "\<lambda>d. is_num d ''quantity''" and R = "scaled_from s"])
       (use pre step6_scaled scaled_from_trans in \<open>blast+\<close>)
  then show ?thesis by blast
qed

section \<open>The expectancy as a mean\<close>

lemma sum_split: "sum_list (map net_pnl trades) = sum_list (map net_pnl (filter (\<lambda>t. net_pnl t > 0) trades)) + sum_list (map net_pnl (filter (\<lambda>t. net_pnl t < 0) trades))"
  by (induction trades) auto

lemma neg_sum: "sum_list (map net_pnl (filter (\<lambda>t. net_pnl t < 0) trades)) \<le> 0"
  by (induction trades) auto

lemma mean:
  assumes "trades \<noteq> []"
  shows "expectancy (calculate_expectancy trades) = sum_list (map net_pnl trades) / real (length trades)"
proof -
  let ?ws = "map net_pnl (filter (\<lambda>t. net_pnl t > 0) trades)"
  let ?ls = "map net_pnl (filter (\<lambda>t. net_pnl t < 0) trades)"
  let ?n = "real (length trades)"
  have n: "?n > 0" using assms by simp
  have w: "real (length ?ws) / ?n * (if ?ws \<noteq> [] then sum_list ?ws / real (length ?ws) else 0) = sum_list ?ws / ?n"
    by (cases "?ws = []") simp_all
  have "sum_list ?ls / real (length ?ls) \<le> 0"
    using neg_sum[of trades] by (simp add: divide_nonpos_nonneg)
  then have a: "\<bar>sum_list ?ls / real (length ?ls)\<bar> = - (sum_list ?ls / real (length ?ls))"
    by (rule abs_of_nonpos)
  have l: "real (length ?ls) / ?n * (if ?ls \<noteq> [] then \<bar>sum_list ?ls / real (length ?ls)\<bar> else 0) = - sum_list ?ls / ?n"
    by (cases "?ls = []") (simp_all add: abs_of_nonpos[OF neg_sum])
  have "expectancy (calculate_expectancy trades) = sum_list ?ws / ?n - (- sum_list ?ls / ?n)"
    using assms w l by (simp add: calculate_expectancy_def Let_def)
  also have "\<dots> = sum_list (map net_pnl trades) / ?n"
    by (subst (3) sum_split) (simp add: add_divide_distrib)
  finally show ?thesis .
qed

section \<open>The result of \<open>allocate_capital\<close>\<close>

lemma conf_sum:
  assumes "\<forall>a\<in>set stocks. candidate (h a)"
  shows "sum_over (\<lambda>stock. get_num stock ''confidence'') h stocks = Inr (total_conf h stocks)"
  unfolding total_conf_def
  by (rule sum_over_ok) (use assms in \<open>simp add: candidate_def get_num_ok\<close>)

lemma value_sum:
  assumes "\<forall>a\<in>set stocks. is_num (g a) ''quantity'' \<and> is_num (g a) ''entry_price''"
  shows "sum_over position_value g stocks
           = Inr (sum_list (map (\<lambda>a. numv (g a) ''quantity'' * numv (g a) ''entry_price'') stocks))"
  by (rule sum_over_ok[where v = "\<lambda>d. numv d ''quantity'' * numv d ''entry_price''"])
     (use assms in \<open>simp add: position_value_ok\<close>)

lemma used5_eq:
  "sum_list (map (\<lambda>a. numv (on_all (prep A (total_conf h stocks) (length stocks)) stocks h a) ''quantity''
                     * numv (on_all (prep A (total_conf h stocks) (length stocks)) stocks h a) ''entry_price'') stocks)
   = used5 A h stocks"
  unfolding used5_def
  by (rule arg_cong[where f = sum_list], rule map_cong) (simp_all add: on_all_def prep_entry)

lemma scaled_from_nums:
  "scaled_from s d d' \<Longrightarrow> k \<noteq> ''quantity'' \<Longrightarrow> is_num d k \<Longrightarrow> is_num d' k"
  "scaled_from s d d' \<Longrightarrow> is_num d' ''quantity''"
  by (auto simp: scaled_from_def is_num_upd)

lemma allocate_capital_run:
  assumes ne: "stocks \<noteq> []"
    and cand: "\<forall>a\<in>set stocks. candidate (h a)"
  shows "(total_capital A < used5 A h stocks \<and> used5 A h stocks = 0
            \<and> allocate_capital A stocks h = Inl ZeroDivisionError)
       \<or> (\<not> (total_capital A < used5 A h stocks \<and> used5 A h stocks = 0) \<and>
          (\<exists>qf. allocate_capital A stocks h
            = Inr (\<lambda>a. if a \<in> set stocks
                        then final A (total_conf h stocks) (length stocks) (qf a) (h a) else h a,
                   filter (\<lambda>a. 0 < qf a) stocks)
          \<and> (\<forall>a\<in>set stocks.
                if total_capital A < used5 A h stocks
                then (0 \<le> total_capital A \<longrightarrow> 0 \<le> qf a \<and>
                      qf a \<le> numv (prep A (total_conf h stocks) (length stocks) (h a)) ''quantity''
                                  * (total_capital A / used5 A h stocks))
                else qf a = numv (prep A (total_conf h stocks) (length stocks) (h a)) ''quantity'')))"
proof -
  let ?S = "total_conf h stocks" and ?n = "length stocks"
  let ?p = "prep A ?S ?n"
  let ?h5 = "on_all ?p stocks h"
  let ?U = "used5 A h stocks"
  let ?T = "total_capital A"
  have h5: "\<forall>a\<in>set stocks. is_num (?h5 a) ''quantity'' \<and> is_num (?h5 a) ''entry_price''
              \<and> is_num (?h5 a) ''stop_loss'' \<and> is_num (?h5 a) ''target'' \<and> 0 \<le> numv (?h5 a) ''quantity''"
    using cand by (simp add: on_all_def prep_facts)
  have sumU: "sum_over position_value ?h5 stocks = Inr ?U"
    using value_sum[of stocks ?h5] h5 by (simp add: used5_eq)
  have start: "allocate_capital A stocks h =
      and_then (if ?T < ?U then
             (if ?U = 0 then Inl ZeroDivisionError
              else and_then (for_each (step6_scale (?T / ?U)) stocks ?h5) (\<lambda>h6.
                   and_then (sum_over position_value h6 stocks) (\<lambda>capital_used1. Inr h6)))
           else Inr ?h5) (\<lambda>h6.
        and_then (for_each step7_finalize stocks h6) (\<lambda>h7.
        and_then (select_where has_quantity h7 stocks) (\<lambda>allocated_stocks.
          Inr (h7, allocated_stocks))))"
    unfolding allocate_capital_def Let_def
    using ne by (simp only: if_False conf_sum[OF cand] and_then_Inr steps_1_to_5[OF cand] sumU)
  consider (raise) "?T < ?U" "?U = 0" | (keep) "\<not> ?T < ?U" | (scale) "?T < ?U" "?U \<noteq> 0"
    by blast
  then show ?thesis
  proof cases
    case raise
    then show ?thesis unfolding start by (simp add: and_then_def)
  next
    case keep
    let ?qf = "\<lambda>a. numv (?p (h a)) ''quantity''"
    have run: "allocate_capital A stocks h
        = Inr (on_all upd7 stocks ?h5, filter (\<lambda>a. 0 < numv (?h5 a) ''quantity'') stocks)"
      unfolding start using keep h5 by (simp add: and_then_Inr finish)
    have st: "on_all upd7 stocks ?h5 = (\<lambda>a. if a \<in> set stocks then final A ?S ?n (?qf a) (h a) else h a)"
    proof
      fix a
      show "on_all upd7 stocks ?h5 a = (if a \<in> set stocks then final A ?S ?n (?qf a) (h a) else h a)"
      proof (cases "a \<in> set stocks")
        case True
        with cand have "is_num (?p (h a)) ''quantity''" by (simp add: prep_facts)
        then have "(?p (h a))(''quantity'' \<mapsto> Num (?qf a)) = ?p (h a)"
          by (simp add: is_numD map_upd_triv)
        with True show ?thesis by (simp add: on_all_def final_def)
      next
        case False
        then show ?thesis by (simp add: on_all_def)
      qed
    qed
    have fl: "filter (\<lambda>a. 0 < numv (?h5 a) ''quantity'') stocks = filter (\<lambda>a. 0 < ?qf a) stocks"
      by (rule filter_cong) (simp_all add: on_all_def)
    from run st fl keep show ?thesis by (intro disjI2 conjI exI[of _ ?qf]) simp_all
  next
    case scale
    let ?s = "?T / ?U"
    from rescale[of stocks ?h5 ?s] h5 obtain h6 where h6:
      "for_each (step6_scale ?s) stocks ?h5 = Inr h6" "\<forall>a. a \<notin> set stocks \<longrightarrow> h6 a = ?h5 a"
      "\<forall>a\<in>set stocks. scaled_from ?s (?h5 a) (h6 a)" by blast
    have n6: "\<forall>a\<in>set stocks. is_num (h6 a) ''quantity'' \<and> is_num (h6 a) ''entry_price''
              \<and> is_num (h6 a) ''stop_loss'' \<and> is_num (h6 a) ''target''"
      using h5 h6(3) by (auto intro: scaled_from_nums)
    let ?qf = "\<lambda>a. numv (h6 a) ''quantity''"
    have run: "allocate_capital A stocks h
        = Inr (on_all upd7 stocks h6, filter (\<lambda>a. 0 < ?qf a) stocks)"
      unfolding start using scale h6(1) n6 by (simp add: and_then_Inr finish value_sum)
    have st: "on_all upd7 stocks h6 = (\<lambda>a. if a \<in> set stocks then final A ?S ?n (?qf a) (h a) else h a)"
    proof
      fix a
      show "on_all upd7 stocks h6 a = (if a \<in> set stocks then final A ?S ?n (?qf a) (h a) else h a)"
      proof (cases "a \<in> set stocks")
        case True
        with h6(3) obtain z :: int where z: "h6 a = (?h5 a)(''quantity'' \<mapsto> Num (of_int z))"
          unfolding scaled_from_def by blast
        then have "?qf a = of_int z" by (simp add: numv_upd)
        with z True show ?thesis by (simp add: on_all_def final_def)
      next
        case False
        with h6(2) show ?thesis by (simp add: on_all_def)
      qed
    qed
    have bound: "0 \<le> ?qf a \<and> ?qf a \<le> numv (?p (h a)) ''quantity'' * ?s"
      if a: "a \<in> set stocks" and T: "0 \<le> ?T" for a
    proof -
      from scale T have Upos: "0 < ?U" by linarith
      then have s: "0 \<le> ?s" "?s \<le> 1" using T scale by simp_all
      from a h5 have q5: "0 \<le> numv (?h5 a) ''quantity''" by blast
      from a h6(3) s q5 obtain z :: int where z: "h6 a = (?h5 a)(''quantity'' \<mapsto> Num (of_int z))"
        "0 \<le> z" "of_int z \<le> numv (?h5 a) ''quantity'' * ?s"
        unfolding scaled_from_def by blast
      from z(1) have "?qf a = of_int z" by (simp add: numv_upd)
      with z(2,3) a show ?thesis by (simp add: on_all_def)
    qed
    from run st scale bound show ?thesis by (intro disjI2 conjI exI[of _ ?qf]) simp_all
  qed
qed

section \<open>Properties of the allocator\<close>

lemma final_fields:
  "numv (final A S n q d) ''capital_allocated'' = q * numv d ''entry_price''"
  "numv (final A S n q d) ''quantity'' = q"
  "numv (final A S n q d) ''entry_price'' = numv d ''entry_price''"
  by (simp_all add: final_def upd7_def numv_upd prep_entry)



lemma weight_kept:
  "upd2 M d ''weight'' = d ''weight''" "upd3 A d ''weight'' = d ''weight''"
  "upd4 d ''weight'' = d ''weight''" "upd5 C d ''weight'' = d ''weight''"
  "upd7 d ''weight'' = d ''weight''"
  by (simp_all add: upd2_def upd3_def upd4_def upd5_def upd7_def Let_def)

lemma final_weight:
  "final A S n q d ''weight'' = Some (Num (if 0 < S then numv d ''confidence'' / S else 1 / real n))"
proof -
  have "final A S n q d ''weight'' = upd1 S n d ''weight''"
    by (simp add: final_def prep_def weight_kept)
  then show ?thesis by (simp add: upd1_def)
qed



lemma cand0: "\<forall>a\<in>set [0, 1, 2]. candidate (h0 a) \<and> 0 < numv (h0 a) ''entry_price''"
  by (simp add: h0_def stock_dict_def candidate_def is_num_def numv_def)


lemma upd_other:
  "k \<noteq> ''weight'' \<Longrightarrow> upd1 S n d k = d k"
  "k \<noteq> ''loss_cap'' \<Longrightarrow> upd2 M d k = d k"
  "k \<noteq> ''stop_loss'' \<Longrightarrow> k \<noteq> ''target'' \<Longrightarrow> upd3 A d k = d k"
  "k \<noteq> ''raw_quantity'' \<Longrightarrow> upd4 d k = d k"
  "k \<noteq> ''quantity'' \<Longrightarrow> upd5 C d k = d k"
  "k \<noteq> ''capital_allocated'' \<Longrightarrow> k \<noteq> ''max_loss'' \<Longrightarrow> k \<noteq> ''target_profit'' \<Longrightarrow> upd7 d k = d k"
  by (simp_all add: upd1_def upd2_def upd3_def upd4_def upd5_def upd7_def Let_def)

lemma upd3_levels:
  "upd3 A d ''stop_loss'' = Some (Num
     (if d ''bias'' = Some (Str ''BULLISH'')
      then numv d ''entry_price'' * (1 - stop_loss_percent A / 100)
      else numv d ''entry_price'' * (1 + stop_loss_percent A / 100)))"
  "upd3 A d ''target'' = Some (Num
     (if d ''bias'' = Some (Str ''BULLISH'')
      then numv d ''entry_price''
           + (numv d ''entry_price'' - numv d ''entry_price'' * (1 - stop_loss_percent A / 100))
             * risk_reward_ratio A
      else numv d ''entry_price''
           - (numv d ''entry_price'' * (1 + stop_loss_percent A / 100) - numv d ''entry_price'')
             * risk_reward_ratio A))"
  by (simp_all add: upd3_def Let_def)

lemma numv_cong: "d k = d' k \<Longrightarrow> numv d k = numv d' k"
  by (simp add: numv_def)

lemma final_levels:
  "final A S n q d ''entry_price'' = d ''entry_price''"
  "final A S n q d ''bias'' = d ''bias''"
  "final A S n q d ''stop_loss'' = Some (Num
     (if d ''bias'' = Some (Str ''BULLISH'')
      then numv d ''entry_price'' * (1 - stop_loss_percent A / 100)
      else numv d ''entry_price'' * (1 + stop_loss_percent A / 100)))"
  "final A S n q d ''target'' = Some (Num
     (if d ''bias'' = Some (Str ''BULLISH'')
      then numv d ''entry_price''
           + (numv d ''entry_price'' - numv d ''entry_price'' * (1 - stop_loss_percent A / 100))
             * risk_reward_ratio A
      else numv d ''entry_price''
           - (numv d ''entry_price'' * (1 + stop_loss_percent A / 100) - numv d ''entry_price'')
             * risk_reward_ratio A))"
proof -
  let ?d2 = "upd2 (total_capital A * (basket_loss_percent A / 100)) (upd1 S n d)"
  have b: "?d2 ''bias'' = d ''bias''" by (simp add: upd_other)
  have e: "numv ?d2 ''entry_price'' = numv d ''entry_price''"
    by (rule numv_cong) (simp add: upd_other)
  show "final A S n q d ''entry_price'' = d ''entry_price''"
    "final A S n q d ''bias'' = d ''bias''"
    by (simp_all add: final_def prep_def upd_other)
  have "final A S n q d ''stop_loss'' = upd3 A ?d2 ''stop_loss''"
    by (simp add: final_def prep_def upd_other)
  then show "final A S n q d ''stop_loss'' = Some (Num
     (if d ''bias'' = Some (Str ''BULLISH'')
      then numv d ''entry_price'' * (1 - stop_loss_percent A / 100)
      else numv d ''entry_price'' * (1 + stop_loss_percent A / 100)))"
    by (simp only: upd3_levels b e)
  have "final A S n q d ''target'' = upd3 A ?d2 ''target''"
    by (simp add: final_def prep_def upd_other)
  then show "final A S n q d ''target'' = Some (Num
     (if d ''bias'' = Some (Str ''BULLISH'')
      then numv d ''entry_price''
           + (numv d ''entry_price'' - numv d ''entry_price'' * (1 - stop_loss_percent A / 100))
             * risk_reward_ratio A
      else numv d ''entry_price''
           - (numv d ''entry_price'' * (1 + stop_loss_percent A / 100) - numv d ''entry_price'')
             * risk_reward_ratio A))"
    by (simp only: upd3_levels b e)
qed

lemma final_untouched:
  assumes "k \<notin> set added_keys"
  shows "final A S n q d k = d k"
  using assms by (simp add: added_keys_def final_def prep_def upd_other)

lemma upd_written:
  "upd1 S n d ''weight'' \<noteq> None" "upd2 M d ''loss_cap'' \<noteq> None"
  "upd3 A d ''stop_loss'' \<noteq> None" "upd3 A d ''target'' \<noteq> None"
  "upd4 d ''raw_quantity'' \<noteq> None"
  "upd7 d ''capital_allocated'' \<noteq> None" "upd7 d ''max_loss'' \<noteq> None" "upd7 d ''target_profit'' \<noteq> None"
  by (simp_all add: upd1_def upd2_def upd3_def upd4_def upd7_def Let_def)

lemma final_has_keys:
  assumes "k \<in> set added_keys"
  shows "k \<in> dom (final A S n q d)"
proof -
  have "final A S n q d ''weight'' \<noteq> None" "final A S n q d ''loss_cap'' \<noteq> None"
    "final A S n q d ''stop_loss'' \<noteq> None" "final A S n q d ''target'' \<noteq> None"
    "final A S n q d ''raw_quantity'' \<noteq> None" "final A S n q d ''quantity'' \<noteq> None"
    "final A S n q d ''capital_allocated'' \<noteq> None" "final A S n q d ''max_loss'' \<noteq> None"
    "final A S n q d ''target_profit'' \<noteq> None"
    by (simp_all add: final_def prep_def upd_other upd_written)
  with assms show ?thesis by (auto simp: added_keys_def)
qed

lemma allocate_capital_cases:
  assumes ne: "stocks \<noteq> []" and cand: "\<forall>a\<in>set stocks. candidate (h a)"
  shows "(\<exists>qf. allocate_capital A stocks h
            = Inr (\<lambda>a. if a \<in> set stocks
                        then final A (total_conf h stocks) (length stocks) (qf a) (h a) else h a,
                   filter (\<lambda>a. 0 < qf a) stocks))
       \<or> (total_capital A < 0 \<and> allocate_capital A stocks h = Inl ZeroDivisionError)"
proof -
  from allocate_capital_run[OF ne cand, of A]
  consider (raise) "total_capital A < used5 A h stocks" "used5 A h stocks = 0"
      "allocate_capital A stocks h = Inl ZeroDivisionError"
    | (ret) qf where "allocate_capital A stocks h
            = Inr (\<lambda>a. if a \<in> set stocks
                        then final A (total_conf h stocks) (length stocks) (qf a) (h a) else h a,
                   filter (\<lambda>a. 0 < qf a) stocks)"
    by blast
  then show ?thesis
  proof cases
    case raise
    then show ?thesis by simp
  next
    case ret
    then show ?thesis by (intro disjI1 exI[of _ qf])
  qed
qed

lemma sum_weights:
  fixes S :: real
  assumes "0 < S" "S = sum_list (map c stocks)"
  shows "sum_list (map (\<lambda>a. c a / S) stocks) = 1"
proof -
  have "sum_list (map (\<lambda>a. c a * inverse S) stocks) = sum_list (map c stocks) * inverse S"
    by (rule sum_list_mult_const)
  then show ?thesis using assms by (simp add: divide_inverse)
qed

text \<open>
  Claim C5 (weight normalization). For a non-empty list of candidates, a call that returns
  leaves in every listed dictionary the weight \<open>confidence / S\<close> when the sum \<open>S\<close> of
  the confidences over the list is positive, and then the weights over the list sum to 1;
  it leaves the weight \<open>1 / N\<close> when \<open>S\<close> is not positive, in particular when \<open>S = 0\<close>;
  and equal confidences give equal weights. The call returns unless \<open>total_capital\<close> is
  negative, the one case in which the division of step 6 can raise.
\<close>

theorem weight_normalization:
  assumes ne: "stocks \<noteq> []" and cand: "\<forall>a\<in>set stocks. candidate (h a)"
  shows "(\<exists>h' out. allocate_capital A stocks h = Inr (h', out)
           \<and> (0 < total_conf h stocks \<longrightarrow>
                 (\<forall>a\<in>set stocks. h' a ''weight''
                     = Some (Num (numv (h a) ''confidence'' / total_conf h stocks)))
                 \<and> sum_list (map (\<lambda>a. numv (h' a) ''weight'') stocks) = 1)
           \<and> (total_conf h stocks \<le> 0 \<longrightarrow>
                 (\<forall>a\<in>set stocks. h' a ''weight'' = Some (Num (1 / real (length stocks)))))
           \<and> (\<forall>a\<in>set stocks. \<forall>b\<in>set stocks.
                 numv (h a) ''confidence'' = numv (h b) ''confidence''
                 \<longrightarrow> h' a ''weight'' = h' b ''weight''))
       \<or> (total_capital A < 0 \<and> allocate_capital A stocks h = Inl ZeroDivisionError)"
proof -
  let ?S = "total_conf h stocks" and ?n = "length stocks"
  from allocate_capital_cases[OF ne cand, of A] show ?thesis
  proof
    assume "total_capital A < 0 \<and> allocate_capital A stocks h = Inl ZeroDivisionError"
    then show ?thesis by (rule disjI2)
  next
    assume "\<exists>qf. allocate_capital A stocks h
            = Inr (\<lambda>a. if a \<in> set stocks then final A ?S ?n (qf a) (h a) else h a,
                   filter (\<lambda>a. 0 < qf a) stocks)"
    then obtain qf where run: "allocate_capital A stocks h
            = Inr (\<lambda>a. if a \<in> set stocks then final A ?S ?n (qf a) (h a) else h a,
                   filter (\<lambda>a. 0 < qf a) stocks)" ..
    let ?h' = "\<lambda>a. if a \<in> set stocks then final A ?S ?n (qf a) (h a) else h a"
    have w: "?h' a ''weight''
              = Some (Num (if 0 < ?S then numv (h a) ''confidence'' / ?S else 1 / real ?n))"
      if "a \<in> set stocks" for a
      using that by (simp only: if_True final_weight)
    have pos: "(\<forall>a\<in>set stocks. ?h' a ''weight'' = Some (Num (numv (h a) ''confidence'' / ?S)))
                 \<and> sum_list (map (\<lambda>a. numv (?h' a) ''weight'') stocks) = 1" if S: "0 < ?S"
    proof
      show "\<forall>a\<in>set stocks. ?h' a ''weight'' = Some (Num (numv (h a) ''confidence'' / ?S))"
        using w S by simp
      have "map (\<lambda>a. numv (?h' a) ''weight'') stocks = map (\<lambda>a. numv (h a) ''confidence'' / ?S) stocks"
        by (rule map_cong) (use w S in \<open>simp_all add: numv_def\<close>)
      then have "sum_list (map (\<lambda>a. numv (?h' a) ''weight'') stocks)
                  = sum_list (map (\<lambda>a. numv (h a) ''confidence'' / ?S) stocks)"
        by (rule arg_cong)
      also have "\<dots> = 1"
        by (rule sum_weights[OF S]) (simp add: total_conf_def)
      finally show "sum_list (map (\<lambda>a. numv (?h' a) ''weight'') stocks) = 1" .
    qed
    have zero: "\<forall>a\<in>set stocks. ?h' a ''weight'' = Some (Num (1 / real ?n))" if "?S \<le> 0"
      using w that by simp
    have eq: "\<forall>a\<in>set stocks. \<forall>b\<in>set stocks.
                 numv (h a) ''confidence'' = numv (h b) ''confidence''
                 \<longrightarrow> ?h' a ''weight'' = ?h' b ''weight''"
      using w by simp
    show ?thesis
      by (rule disjI1, rule exI[of _ ?h'], rule exI[of _ "filter (\<lambda>a. 0 < qf a) stocks"])
         (use run pos zero eq in blast)
  qed
qed

lemma cand0_only: "\<forall>a\<in>set [0, 1, 2]. candidate (h0 a)"
  using cand0 by blast

lemma candz: "\<forall>a\<in>set [0, 1]. candidate (hz a)"
  by (simp add: hz_def stock_dict_def candidate_def is_num_def)

lemma conf0: "total_conf h0 [0, 1, 2] = 180"
  by (simp add: total_conf_def h0_def stock_dict_def numv_def)

lemma confz: "total_conf hz [0, 1] = 0"
  by (simp add: total_conf_def hz_def stock_dict_def numv_def)

text \<open>Claim C5 at two concrete inputs: confidences 90, 60, 30, and confidences 0, 0.\<close>

theorem weight_normalization_witness:
  "[0, 1, 2] \<noteq> ([] :: addr list)
   \<and> candidate (h0 0) \<and> candidate (h0 1) \<and> candidate (h0 2)
   \<and> 0 < total_conf h0 [0, 1, 2]
   \<and> (\<exists>h' out. allocate_capital A0 [0, 1, 2] h0 = Inr (h', out)
         \<and> (\<forall>a\<in>set [0, 1, 2]. h' a ''weight''
                = Some (Num (numv (h0 a) ''confidence'' / total_conf h0 [0, 1, 2])))
         \<and> sum_list (map (\<lambda>a. numv (h' a) ''weight'') [0, 1, 2]) = 1)
   \<and> [0, 1] \<noteq> ([] :: addr list) \<and> candidate (hz 0) \<and> candidate (hz 1)
   \<and> total_conf hz [0, 1] \<le> 0
   \<and> (\<exists>h' out. allocate_capital A0 [0, 1] hz = Inr (h', out)
         \<and> (\<forall>a\<in>set [0, 1]. h' a ''weight'' = Some (Num (1 / real (length [0, 1 :: addr]))))
         \<and> (numv (hz 0) ''confidence'' = numv (hz 1) ''confidence'' \<and> h' 0 ''weight'' = h' 1 ''weight''))"
proof -
  have T: "\<not> total_capital A0 < 0" by (simp add: A0_def)
  have ne0: "[0, 1, 2] \<noteq> ([] :: addr list)" and nez: "[0, 1] \<noteq> ([] :: addr list)" by simp_all
  have c0: "candidate (h0 0)" "candidate (h0 1)" "candidate (h0 2)"
    by (simp_all add: h0_def stock_dict_def candidate_def is_num_def)
  have cz: "candidate (hz 0)" "candidate (hz 1)"
    by (simp_all add: hz_def stock_dict_def candidate_def is_num_def)
  have S0: "0 < total_conf h0 [0, 1, 2]" unfolding conf0 by simp
  have Sz: "total_conf hz [0, 1] \<le> 0" unfolding confz by simp
  have eqz: "numv (hz 0) ''confidence'' = numv (hz 1) ''confidence''"
    by (simp add: hz_def stock_dict_def numv_def)
  have m0: "(0::addr) \<in> set [0, 1]" and m1: "(1::addr) \<in> set [0, 1]" by simp_all
  have a: "\<exists>h' out. allocate_capital A0 [0, 1, 2] h0 = Inr (h', out)
         \<and> (\<forall>a\<in>set [0, 1, 2]. h' a ''weight''
                = Some (Num (numv (h0 a) ''confidence'' / total_conf h0 [0, 1, 2])))
         \<and> sum_list (map (\<lambda>a. numv (h' a) ''weight'') [0, 1, 2]) = 1"
    using weight_normalization[OF ne0 cand0_only, of A0] T S0 by blast
  have b: "\<exists>h' out. allocate_capital A0 [0, 1] hz = Inr (h', out)
         \<and> (\<forall>a\<in>set [0, 1]. h' a ''weight'' = Some (Num (1 / real (length [0, 1 :: addr]))))
         \<and> (numv (hz 0) ''confidence'' = numv (hz 1) ''confidence'' \<and> h' 0 ''weight'' = h' 1 ''weight'')"
    using weight_normalization[OF nez candz, of A0] T Sz eqz m0 m1 by blast
  show ?thesis
    by (intro conjI ne0 nez c0 cz S0 Sz a b)
qed

text \<open>
  Claim C10 (mutation in place). For a non-empty list of candidates, a call that returns
  leaves all nine added keys in every dictionary the list names, whether the returned
  list names it or not; the returned list is the sublist of the input addresses whose
  dictionary now has a positive quantity, so it refers to the caller's dictionaries and
  to no copies; dictionaries outside the list and keys other than the nine are
  unchanged. The call returns unless \<open>total_capital\<close> is negative.
\<close>

theorem allocate_capital_mutates_in_place:
  assumes ne: "stocks \<noteq> []" and cand: "\<forall>a\<in>set stocks. candidate (h a)"
  shows "(\<exists>h' out. allocate_capital A stocks h = Inr (h', out)
           \<and> (\<forall>a\<in>set stocks. \<forall>k\<in>set added_keys. k \<in> dom (h' a))
           \<and> out = filter (\<lambda>a. 0 < numv (h' a) ''quantity'') stocks
           \<and> set out \<subseteq> set stocks
           \<and> (\<forall>a. a \<notin> set stocks \<longrightarrow> h' a = h a)
           \<and> (\<forall>a k. k \<notin> set added_keys \<longrightarrow> h' a k = h a k))
       \<or> (total_capital A < 0 \<and> allocate_capital A stocks h = Inl ZeroDivisionError)"
proof -
  let ?S = "total_conf h stocks" and ?n = "length stocks"
  from allocate_capital_cases[OF ne cand, of A] show ?thesis
  proof
    assume "total_capital A < 0 \<and> allocate_capital A stocks h = Inl ZeroDivisionError"
    then show ?thesis by (rule disjI2)
  next
    assume "\<exists>qf. allocate_capital A stocks h
            = Inr (\<lambda>a. if a \<in> set stocks then final A ?S ?n (qf a) (h a) else h a,
                   filter (\<lambda>a. 0 < qf a) stocks)"
    then obtain qf where run: "allocate_capital A stocks h
            = Inr (\<lambda>a. if a \<in> set stocks then final A ?S ?n (qf a) (h a) else h a,
                   filter (\<lambda>a. 0 < qf a) stocks)" ..
    let ?h' = "\<lambda>a. if a \<in> set stocks then final A ?S ?n (qf a) (h a) else h a"
    let ?out = "filter (\<lambda>a. 0 < qf a) stocks"
    have keys: "\<forall>a\<in>set stocks. \<forall>k\<in>set added_keys. k \<in> dom (?h' a)"
    proof (intro ballI)
      fix a k assume a: "a \<in> set stocks" and k: "k \<in> set added_keys"
      have "k \<in> dom (final A ?S ?n (qf a) (h a))" using k by (rule final_has_keys)
      with a show "k \<in> dom (?h' a)" by (simp only: if_True)
    qed
    have out: "?out = filter (\<lambda>a. 0 < numv (?h' a) ''quantity'') stocks"
      by (rule filter_cong) (simp_all add: final_fields)
    have sub: "set ?out \<subseteq> set stocks" by simp
    have frame: "\<forall>a. a \<notin> set stocks \<longrightarrow> ?h' a = h a" by simp
    have other: "\<forall>a k. k \<notin> set added_keys \<longrightarrow> ?h' a k = h a k"
    proof (intro allI impI)
      fix a k assume k: "k \<notin> set added_keys"
      have "final A ?S ?n (qf a) (h a) k = h a k" using k by (rule final_untouched)
      then show "?h' a k = h a k" by simp
    qed
    show ?thesis
      by (rule disjI1, rule exI[of _ ?h'], rule exI[of _ ?out])
         (intro conjI run keys out sub frame other)
  qed
qed

lemma cand3: "\<forall>a\<in>set [0, 1]. candidate (h3 a)"
  by (simp add: h3_def stock_dict_def candidate_def is_num_def)

text \<open>
  Claim C10 at a concrete input: the second stock costs 400, above the capital cap of
  300, so it is dropped from the returned list, and it has the nine keys all the same.
\<close>

theorem allocate_capital_mutates_in_place_witness:
  "[0, 1] \<noteq> ([] :: addr list) \<and> candidate (h3 0) \<and> candidate (h3 1)
   \<and> (\<exists>h' out. allocate_capital A1 [0, 1] h3 = Inr (h', out)
           \<and> (\<forall>a\<in>set [0, 1]. \<forall>k\<in>set added_keys. k \<in> dom (h' a))
           \<and> out = filter (\<lambda>a. 0 < numv (h' a) ''quantity'') [0, 1]
           \<and> set out \<subseteq> set [0, 1]
           \<and> h' 7 = h3 7
           \<and> h' 0 ''symbol'' = h3 0 ''symbol'')
   \<and> outcome (allocate_capital A1 [0, 1] h3) [0, 1] added_keys
       = Inr ([0],
           [[Some (Num (1 / 2)), Some (Num 10), Some (Num 98), Some (Num 104),
             Some (Num 5), Some (Num 3), Some (Num 300), Some (Num 6), Some (Num 12)],
            [Some (Num (1 / 2)), Some (Num 10), Some (Num 408), Some (Num 384),
             Some (Num (5 / 4)), Some (Num 0), Some (Num 0), Some (Num 0), Some (Num 0)]])"
proof -
  have T: "\<not> total_capital A1 < 0" by (simp add: A1_def A0_def)
  have ne: "[0, 1] \<noteq> ([] :: addr list)" by simp
  have c: "candidate (h3 0)" "candidate (h3 1)"
    by (simp_all add: h3_def stock_dict_def candidate_def is_num_def)
  have m: "(7::addr) \<notin> set [0, 1]" by simp
  have k: "''symbol'' \<notin> set added_keys" by (simp add: added_keys_def)
  have ex: "\<exists>h' out. allocate_capital A1 [0, 1] h3 = Inr (h', out)
           \<and> (\<forall>a\<in>set [0, 1]. \<forall>k\<in>set added_keys. k \<in> dom (h' a))
           \<and> out = filter (\<lambda>a. 0 < numv (h' a) ''quantity'') [0, 1]
           \<and> set out \<subseteq> set [0, 1]
           \<and> h' 7 = h3 7
           \<and> h' 0 ''symbol'' = h3 0 ''symbol''"
    using allocate_capital_mutates_in_place[OF ne cand3, of A1] T m k by blast
  have run: "outcome (allocate_capital A1 [0, 1] h3) [0, 1] added_keys
       = Inr ([0],
           [[Some (Num (1 / 2)), Some (Num 10), Some (Num 98), Some (Num 104),
             Some (Num 5), Some (Num 3), Some (Num 300), Some (Num 6), Some (Num 12)],
            [Some (Num (1 / 2)), Some (Num 10), Some (Num 408), Some (Num 384),
             Some (Num (5 / 4)), Some (Num 0), Some (Num 0), Some (Num 0), Some (Num 0)]])"
    by code_simp
  show ?thesis by (intro conjI ne c ex run)
qed

lemma entry_levels_order:
  assumes "0 < price" "0 < stop_loss_percent E" "0 < target_percent E"
  shows "if b = ''BULLISH''
         then fst (entry_levels E b price) < price \<and> price < snd (entry_levels E b price)
         else snd (entry_levels E b price) < price \<and> price < fst (entry_levels E b price)"
proof -
  have 1: "price * (1 - stop_loss_percent E / 100) < price * 1"
    and 2: "price * 1 < price * (1 + target_percent E / 100)"
    and 3: "price * 1 < price * (1 + stop_loss_percent E / 100)"
    and 4: "price * (1 - target_percent E / 100) < price * 1"
    by (rule mult_strict_left_mono; use assms in simp)+
  then show ?thesis by (simp add: entry_levels_def)
qed

lemma alloc_levels_order:
  fixes e p R :: real
  assumes "0 < e" "0 < p" "0 < R"
  shows "e * (1 - p / 100) < e" "e < e + (e - e * (1 - p / 100)) * R"
    "e < e * (1 + p / 100)" "e - (e * (1 + p / 100) - e) * R < e"
proof -
  have 1: "e * (1 - p / 100) < e * 1" and 3: "e * 1 < e * (1 + p / 100)"
    by (rule mult_strict_left_mono; use assms in simp)+
  from 1 show "e * (1 - p / 100) < e" by simp
  from 3 show "e < e * (1 + p / 100)" by simp
  from 1 have "0 < (e - e * (1 - p / 100)) * R" using assms(3) by simp
  then show "e < e + (e - e * (1 - p / 100)) * R" by simp
  from 3 have "0 < (e * (1 + p / 100) - e) * R" using assms(3) by simp
  then show "e - (e * (1 + p / 100) - e) * R < e" by simp
qed

text \<open>
  Claim C6, amended (stop and target order). For a candidate with a positive entry price,
  under \<open>0 < stop_loss_percent < 100\<close> and \<open>risk_reward_ratio > 0\<close>, the levels
  \<open>allocate_capital\<close> leaves in the dictionary satisfy \<open>stop_loss < entry_price < target\<close>
  for the bias \<open>BULLISH\<close> and \<open>target < entry_price < stop_loss\<close> otherwise. The levels
  \<open>calculate_entry\<close> derives from a positive entry price, before it rounds them, are in
  the same order when \<open>0 < stop_loss_percent < 100\<close> and, in addition,
  \<open>target_percent > 0\<close>: the engine takes the target from \<open>target_percent\<close> and does
  not read \<open>risk_reward_ratio\<close>.
\<close>

theorem stop_target_order:
  assumes ne: "stocks \<noteq> []" and cand: "\<forall>a\<in>set stocks. candidate (h a)"
    and a: "a \<in> set stocks" and e: "0 < numv (h a) ''entry_price''"
    and A: "0 < stop_loss_percent A" "stop_loss_percent A < 100" "0 < risk_reward_ratio A"
    and E: "0 < price" "0 < stop_loss_percent E" "stop_loss_percent E < 100" "0 < target_percent E"
  shows "((\<exists>h' out. allocate_capital A stocks h = Inr (h', out)
            \<and> (if h' a ''bias'' = Some (Str ''BULLISH'')
                then numv (h' a) ''stop_loss'' < numv (h' a) ''entry_price''
                     \<and> numv (h' a) ''entry_price'' < numv (h' a) ''target''
                else numv (h' a) ''target'' < numv (h' a) ''entry_price''
                     \<and> numv (h' a) ''entry_price'' < numv (h' a) ''stop_loss''))
          \<or> (total_capital A < 0 \<and> allocate_capital A stocks h = Inl ZeroDivisionError))
       \<and> (if b = ''BULLISH''
           then fst (entry_levels E b price) < price \<and> price < snd (entry_levels E b price)
           else snd (entry_levels E b price) < price \<and> price < fst (entry_levels E b price))"
proof
  show "if b = ''BULLISH''
           then fst (entry_levels E b price) < price \<and> price < snd (entry_levels E b price)
           else snd (entry_levels E b price) < price \<and> price < fst (entry_levels E b price)"
    using E(1,2,4) by (rule entry_levels_order)
  let ?S = "total_conf h stocks" and ?n = "length stocks"
  from allocate_capital_cases[OF ne cand, of A]
  show "(\<exists>h' out. allocate_capital A stocks h = Inr (h', out)
            \<and> (if h' a ''bias'' = Some (Str ''BULLISH'')
                then numv (h' a) ''stop_loss'' < numv (h' a) ''entry_price''
                     \<and> numv (h' a) ''entry_price'' < numv (h' a) ''target''
                else numv (h' a) ''target'' < numv (h' a) ''entry_price''
                     \<and> numv (h' a) ''entry_price'' < numv (h' a) ''stop_loss''))
          \<or> (total_capital A < 0 \<and> allocate_capital A stocks h = Inl ZeroDivisionError)"
  proof
    assume "total_capital A < 0 \<and> allocate_capital A stocks h = Inl ZeroDivisionError"
    then show ?thesis by (rule disjI2)
  next
    assume "\<exists>qf. allocate_capital A stocks h
            = Inr (\<lambda>a. if a \<in> set stocks then final A ?S ?n (qf a) (h a) else h a,
                   filter (\<lambda>a. 0 < qf a) stocks)"
    then obtain qf where run: "allocate_capital A stocks h
            = Inr (\<lambda>a. if a \<in> set stocks then final A ?S ?n (qf a) (h a) else h a,
                   filter (\<lambda>a. 0 < qf a) stocks)" ..
    let ?h' = "\<lambda>a. if a \<in> set stocks then final A ?S ?n (qf a) (h a) else h a"
    let ?f = "final A ?S ?n (qf a) (h a)"
    have f: "?h' a = ?f" using a by simp
    have en: "numv ?f ''entry_price'' = numv (h a) ''entry_price''"
      by (rule numv_cong) (rule final_levels)
    have ord: "if ?f ''bias'' = Some (Str ''BULLISH'')
                then numv ?f ''stop_loss'' < numv ?f ''entry_price''
                     \<and> numv ?f ''entry_price'' < numv ?f ''target''
                else numv ?f ''target'' < numv ?f ''entry_price''
                     \<and> numv ?f ''entry_price'' < numv ?f ''stop_loss''"
      using alloc_levels_order[OF e A(1) A(3)]
      by (simp add: en final_levels(2) numv_def[of ?f "''stop_loss''"] numv_def[of ?f "''target''"]
            final_levels(3,4))
    have ord': "if ?h' a ''bias'' = Some (Str ''BULLISH'')
                then numv (?h' a) ''stop_loss'' < numv (?h' a) ''entry_price''
                     \<and> numv (?h' a) ''entry_price'' < numv (?h' a) ''target''
                else numv (?h' a) ''target'' < numv (?h' a) ''entry_price''
                     \<and> numv (?h' a) ''entry_price'' < numv (?h' a) ''stop_loss''"
      unfolding f by (rule ord)
    show ?thesis
      by (rule disjI1, rule exI[of _ ?h'], rule exI[of _ "filter (\<lambda>a. 0 < qf a) stocks"])
         (intro conjI run ord')
  qed
qed

text \<open>Claim C6, amended, at a concrete input: the \<open>BEARISH\<close> stock of the first store,
  and an entry price of 100 with the bias \<open>BEARISH\<close> for the engine.\<close>

theorem stop_target_order_witness:
  "[0, 1, 2] \<noteq> ([] :: addr list)
   \<and> candidate (h0 0) \<and> candidate (h0 1) \<and> candidate (h0 2)
   \<and> (1::addr) \<in> set [0, 1, 2] \<and> 0 < numv (h0 1) ''entry_price''
   \<and> 0 < stop_loss_percent A0 \<and> stop_loss_percent A0 < 100 \<and> 0 < risk_reward_ratio A0
   \<and> (0::real) < 100 \<and> 0 < stop_loss_percent E0 \<and> stop_loss_percent E0 < 100
   \<and> 0 < target_percent E0
   \<and> ((\<exists>h' out. allocate_capital A0 [0, 1, 2] h0 = Inr (h', out)
            \<and> (if h' 1 ''bias'' = Some (Str ''BULLISH'')
                then numv (h' 1) ''stop_loss'' < numv (h' 1) ''entry_price''
                     \<and> numv (h' 1) ''entry_price'' < numv (h' 1) ''target''
                else numv (h' 1) ''target'' < numv (h' 1) ''entry_price''
                     \<and> numv (h' 1) ''entry_price'' < numv (h' 1) ''stop_loss''))
          \<or> (total_capital A0 < 0 \<and> allocate_capital A0 [0, 1, 2] h0 = Inl ZeroDivisionError))
   \<and> (if ''BEARISH'' = ''BULLISH''
       then fst (entry_levels E0 ''BEARISH'' 100) < 100 \<and> 100 < snd (entry_levels E0 ''BEARISH'' 100)
       else snd (entry_levels E0 ''BEARISH'' 100) < 100 \<and> 100 < fst (entry_levels E0 ''BEARISH'' 100))"
proof -
  have ne: "[0, 1, 2] \<noteq> ([] :: addr list)" by simp
  have c0: "candidate (h0 0)" "candidate (h0 1)" "candidate (h0 2)"
    by (simp_all add: h0_def stock_dict_def candidate_def is_num_def)
  have m: "(1::addr) \<in> set [0, 1, 2]" by simp
  have e: "0 < numv (h0 1) ''entry_price''" by (simp add: h0_def stock_dict_def numv_def)
  have A: "0 < stop_loss_percent A0" "stop_loss_percent A0 < 100" "0 < risk_reward_ratio A0"
    by (simp_all add: A0_def)
  have E: "(0::real) < 100" "0 < stop_loss_percent E0" "stop_loss_percent E0 < 100"
    "0 < target_percent E0"
    by (simp_all add: E0_def)
  note t = stop_target_order[OF ne cand0_only m e A E, of "''BEARISH''"]
  show ?thesis
    by (intro conjI ne c0 m e A E conjunct1[OF t] conjunct2[OF t])
qed

text \<open>
  Claim C6 as stated fails for \<open>calculate_entry\<close>: with \<open>stop_loss_percent = 2\<close> and
  \<open>target_percent = 0\<close> the target of a \<open>BULLISH\<close> entry at 100 is 100, not above the
  entry price.
\<close>

theorem stop_target_order_counterexample:
  "0 < stop_loss_percent E_flat \<and> stop_loss_percent E_flat < 100 \<and> (0::real) < 100
   \<and> entry_levels E_flat ''BULLISH'' 100 = (98, 100)
   \<and> \<not> (100 < snd (entry_levels E_flat ''BULLISH'' 100))"
  by (simp add: E_flat_def E0_def entry_levels_def)

section \<open>Properties of the simulator\<close>

lemma find_entry_first:
  "\<forall>x\<in>set pre. \<not> qualifies strptime start x \<Longrightarrow> qualifies strptime start c \<Longrightarrow>
   find_entry_candle strptime start (pre @ c # post) = Some c"
  by (induction pre) (auto simp: qualifies_def split: option.splits)

lemma find_entry_cases:
  "(find_entry_candle strptime start cs = None \<and> (\<forall>x\<in>set cs. \<not> qualifies strptime start x))
   \<or> (\<exists>pre c post. cs = pre @ c # post \<and> (\<forall>x\<in>set pre. \<not> qualifies strptime start x)
          \<and> qualifies strptime start c \<and> find_entry_candle strptime start cs = Some c)"
proof (induction cs)
  case Nil
  then show ?case by simp
next
  case (Cons x cs)
  show ?case
  proof (cases "qualifies strptime start x")
    case True
    then have "find_entry_candle strptime start (x # cs) = Some x"
      by (auto simp: qualifies_def split: option.splits)
    with True show ?thesis by (intro disjI2 exI[of _ "[]"] exI[of _ x] exI[of _ cs]) simp
  next
    case False
    then have step: "find_entry_candle strptime start (x # cs) = find_entry_candle strptime start cs"
      by (auto simp: qualifies_def split: option.splits)
    from Cons.IH show ?thesis
    proof
      assume "find_entry_candle strptime start cs = None \<and> (\<forall>x\<in>set cs. \<not> qualifies strptime start x)"
      with False step show ?thesis by simp
    next
      assume "\<exists>pre c post. cs = pre @ c # post \<and> (\<forall>x\<in>set pre. \<not> qualifies strptime start x)
          \<and> qualifies strptime start c \<and> find_entry_candle strptime start cs = Some c"
      then obtain pre c post where *: "cs = pre @ c # post" "\<forall>x\<in>set pre. \<not> qualifies strptime start x"
          "qualifies strptime start c" "find_entry_candle strptime start cs = Some c" by blast
      with False step show ?thesis
        by (intro disjI2 exI[of _ "x # pre"] exI[of _ c] exI[of _ post]) simp
    qed
  qed
qed

lemma slipped_entry_pos:
  assumes "0 < base" "0 \<le> slippage_percent E" "slippage_percent E < 100"
  shows "0 < slipped_entry E b base"
proof -
  have "0 < 1 + slippage_percent E / 100" "0 < 1 - slippage_percent E / 100"
    using assms(2,3) by simp_all
  with assms(1) show ?thesis by (simp add: slipped_entry_def)
qed

lemma calculate_entry_at:
  assumes f: "find_entry_candle strptime (entry_start E) candle_data = Some c"
    and o: "0 < Open c" and s: "0 \<le> slippage_percent E" "slippage_percent E < 100"
    and cap: "0 \<le> capital_per_trade E"
  shows "calculate_entry strptime E sy candle_data b =
          (if \<lfloor>capital_per_trade E / slipped_entry E b (Open c)\<rfloor> = 0 then Inr None
           else Inr (Some \<lparr>symbol = sy, entry_time = Time c,
                  entry_price = py_round2 (slipped_entry E b (Open c)),
                  quantity = \<lfloor>capital_per_trade E / slipped_entry E b (Open c)\<rfloor>,
                  bias = b,
                  stop_loss = py_round2 (fst (entry_levels E b (slipped_entry E b (Open c)))),
                  target = py_round2 (snd (entry_levels E b (slipped_entry E b (Open c)))),
                  invested_amount = py_round2 (slipped_entry E b (Open c)
                      * of_int \<lfloor>capital_per_trade E / slipped_entry E b (Open c)\<rfloor>)\<rparr>))"
proof -
  have p: "0 < slipped_entry E b (Open c)" using o s by (rule slipped_entry_pos)
  then have "0 \<le> capital_per_trade E / slipped_entry E b (Open c)" using cap by simp
  then have "py_int (capital_per_trade E / slipped_entry E b (Open c))
              = \<lfloor>capital_per_trade E / slipped_entry E b (Open c)\<rfloor>"
    by (simp add: py_int_def)
  with p f show ?thesis
    by (simp add: calculate_entry_def Let_def split_beta)
qed

text \<open>
  Claim C8, amended (entry or no entry). For a candle series with positive opens, under
  \<open>0 \<le> slippage_percent < 100\<close> and \<open>capital_per_trade \<ge> 0\<close>, \<open>calculate_entry\<close> does
  not raise; it returns \<open>None\<close> exactly when no row qualifies (a time that parses and is at
  or after \<open>entry_start\<close>) or the floor of \<open>capital_per_trade\<close> over the slipped open of
  the first qualifying row is 0; otherwise it returns an entry at the time of that row,
  with that floor as quantity, whose price is the slipped open rounded to two decimals.
\<close>

theorem calculate_entry_result:
  assumes opens: "\<forall>c\<in>set candle_data. 0 < Open c"
    and s: "0 \<le> slippage_percent E" "slippage_percent E < 100"
    and cap: "0 \<le> capital_per_trade E"
  shows "(\<forall>err. calculate_entry strptime E sy candle_data b \<noteq> Inl err)
       \<and> (calculate_entry strptime E sy candle_data b = Inr None \<longleftrightarrow>
            (\<forall>c\<in>set candle_data. \<not> qualifies strptime (entry_start E) c)
          \<or> (\<exists>pre c post. candle_data = pre @ c # post
                \<and> (\<forall>x\<in>set pre. \<not> qualifies strptime (entry_start E) x)
                \<and> qualifies strptime (entry_start E) c
                \<and> \<lfloor>capital_per_trade E / slipped_entry E b (Open c)\<rfloor> = 0))
       \<and> (\<forall>pre c post. candle_data = pre @ c # post
                \<and> (\<forall>x\<in>set pre. \<not> qualifies strptime (entry_start E) x)
                \<and> qualifies strptime (entry_start E) c
                \<and> \<lfloor>capital_per_trade E / slipped_entry E b (Open c)\<rfloor> \<noteq> 0
            \<longrightarrow> (\<exists>e. calculate_entry strptime E sy candle_data b = Inr (Some e)
                   \<and> entry_price e = py_round2 (slipped_entry E b (Open c))
                   \<and> entry_time e = Time c
                   \<and> quantity e = \<lfloor>capital_per_trade E / slipped_entry E b (Open c)\<rfloor>
                   \<and> symbol e = sy \<and> bias e = b))"
proof -
  let ?q = "qualifies strptime (entry_start E)"
  let ?r = "calculate_entry strptime E sy candle_data b"
  let ?fl = "\<lambda>c. \<lfloor>capital_per_trade E / slipped_entry E b (Open c)\<rfloor>"
  have at: "?r = (if ?fl c = 0 then Inr None
           else Inr (Some \<lparr>symbol = sy, entry_time = Time c,
                  entry_price = py_round2 (slipped_entry E b (Open c)),
                  quantity = ?fl c, bias = b,
                  stop_loss = py_round2 (fst (entry_levels E b (slipped_entry E b (Open c)))),
                  target = py_round2 (snd (entry_levels E b (slipped_entry E b (Open c)))),
                  invested_amount = py_round2 (slipped_entry E b (Open c) * of_int (?fl c))\<rparr>))"
    if "candle_data = pre @ c # post" "\<forall>x\<in>set pre. \<not> ?q x" "?q c" for pre c post
  proof -
    from that have "find_entry_candle strptime (entry_start E) candle_data = Some c"
      by (simp add: find_entry_first)
    moreover from that(1) opens have "0 < Open c" by simp
    ultimately show ?thesis using s cap by (rule calculate_entry_at)
  qed
  from find_entry_cases[of strptime "entry_start E" candle_data]
  show ?thesis
  proof
    assume n: "find_entry_candle strptime (entry_start E) candle_data = None
                \<and> (\<forall>x\<in>set candle_data. \<not> ?q x)"
    then have r: "?r = Inr None" by (simp add: calculate_entry_def)
    have "\<not> (candle_data = pre @ c # post \<and> ?q c)" for pre c post
      using n by auto
    with r n show ?thesis by auto
  next
    assume "\<exists>pre c post. candle_data = pre @ c # post \<and> (\<forall>x\<in>set pre. \<not> ?q x)
          \<and> ?q c \<and> find_entry_candle strptime (entry_start E) candle_data = Some c"
    then obtain pre c post where *: "candle_data = pre @ c # post" "\<forall>x\<in>set pre. \<not> ?q x" "?q c"
      by blast
    have uniq: "c' = c" if "candle_data = pre' @ c' # post'" "\<forall>x\<in>set pre'. \<not> ?q x" "?q c'"
      for pre' c' post'
    proof -
      from * have "find_entry_candle strptime (entry_start E) candle_data = Some c"
        by (simp add: find_entry_first)
      moreover from that have "find_entry_candle strptime (entry_start E) candle_data = Some c'"
        by (simp add: find_entry_first)
      ultimately show ?thesis by simp
    qed
    have some: "\<not> (\<forall>x\<in>set candle_data. \<not> ?q x)" using * by auto
    show ?thesis
    proof (cases "?fl c = 0")
      case True
      with at[OF *] have r: "?r = Inr None" by simp
      have 1: "\<forall>err. ?r \<noteq> Inl err" using r by simp
      have 2: "?r = Inr None \<longleftrightarrow> (\<forall>c\<in>set candle_data. \<not> ?q c)
          \<or> (\<exists>pre c post. candle_data = pre @ c # post \<and> (\<forall>x\<in>set pre. \<not> ?q x) \<and> ?q c \<and> ?fl c = 0)"
        using r * True by blast
      have 3: "\<forall>pre' c' post'. candle_data = pre' @ c' # post' \<and> (\<forall>x\<in>set pre'. \<not> ?q x) \<and> ?q c'
                  \<and> ?fl c' \<noteq> 0 \<longrightarrow> (\<exists>e. ?r = Inr (Some e)
                   \<and> entry_price e = py_round2 (slipped_entry E b (Open c'))
                   \<and> entry_time e = Time c' \<and> quantity e = ?fl c' \<and> symbol e = sy \<and> bias e = b)"
        using uniq True by blast
      from 1 2 3 show ?thesis by (intro conjI)
    next
      case False
      with at[OF *] have r: "?r = Inr (Some \<lparr>symbol = sy, entry_time = Time c,
                  entry_price = py_round2 (slipped_entry E b (Open c)),
                  quantity = ?fl c, bias = b,
                  stop_loss = py_round2 (fst (entry_levels E b (slipped_entry E b (Open c)))),
                  target = py_round2 (snd (entry_levels E b (slipped_entry E b (Open c)))),
                  invested_amount = py_round2 (slipped_entry E b (Open c) * of_int (?fl c))\<rparr>)"
        by simp
      have 1: "\<forall>err. ?r \<noteq> Inl err" using r by simp
      have nn: "?r \<noteq> Inr None" using r by simp
      have "\<not> (\<exists>pre c post. candle_data = pre @ c # post \<and> (\<forall>x\<in>set pre. \<not> ?q x) \<and> ?q c \<and> ?fl c = 0)"
        using uniq False by blast
      with nn some have 2: "?r = Inr None \<longleftrightarrow> (\<forall>c\<in>set candle_data. \<not> ?q c)
          \<or> (\<exists>pre c post. candle_data = pre @ c # post \<and> (\<forall>x\<in>set pre. \<not> ?q x) \<and> ?q c \<and> ?fl c = 0)"
        by blast
      have e: "\<exists>e. ?r = Inr (Some e)
                   \<and> entry_price e = py_round2 (slipped_entry E b (Open c))
                   \<and> entry_time e = Time c \<and> quantity e = ?fl c \<and> symbol e = sy \<and> bias e = b"
        unfolding r by simp
      have 3: "\<forall>pre' c' post'. candle_data = pre' @ c' # post' \<and> (\<forall>x\<in>set pre'. \<not> ?q x) \<and> ?q c'
                  \<and> ?fl c' \<noteq> 0 \<longrightarrow> (\<exists>e. ?r = Inr (Some e)
                   \<and> entry_price e = py_round2 (slipped_entry E b (Open c'))
                   \<and> entry_time e = Time c' \<and> quantity e = ?fl c' \<and> symbol e = sy \<and> bias e = b)"
        using uniq e by blast
      from 1 2 3 show ?thesis by (intro conjI)
    qed
  qed
qed

lemmas fixture_defs = E0_def entry0_def bar_def hms_def two_digits_def digit_def

lemma q_early: "\<not> qualifies hms (entry_start E0) (bar ''09:15:00'' 100.1 100.4 100 100.3)"
  by (simp add: qualifies_def fixture_defs)

lemma q_entry: "qualifies hms (entry_start E0) (bar ''09:20:00'' 100.33 100.5 100.2 100.4)"
  by (simp add: qualifies_def fixture_defs)

lemma slip_entry: "slipped_entry E0 ''BULLISH'' (Open (bar ''09:20:00'' 100.33 100.5 100.2 100.4)) = 100.43033"
  by (simp add: slipped_entry_def fixture_defs)

lemma round_entry: "py_round2 100.43033 = 100.43"
  by (simp add: py_round2_def round_half_even_def Let_def)

lemma floor_entry: "\<lfloor>capital_per_trade E0 / (100.43033::real)\<rfloor> = 99"
  by (simp add: E0_def floor_eq_iff)

text \<open>Claim C8, amended, at a concrete input: the row at 09:15 does not qualify, the
  row at 09:20 opens at 100.33, and the entry is 99 shares at 100.43.\<close>

theorem calculate_entry_result_witness:
  "0 < Open (bar ''09:15:00'' 100.1 100.4 100 100.3)
   \<and> 0 < Open (bar ''09:20:00'' 100.33 100.5 100.2 100.4)
   \<and> 0 \<le> slippage_percent E0 \<and> slippage_percent E0 < 100 \<and> 0 \<le> capital_per_trade E0
   \<and> \<not> qualifies hms (entry_start E0) (bar ''09:15:00'' 100.1 100.4 100 100.3)
   \<and> qualifies hms (entry_start E0) (bar ''09:20:00'' 100.33 100.5 100.2 100.4)
   \<and> \<lfloor>capital_per_trade E0
        / slipped_entry E0 ''BULLISH'' (Open (bar ''09:20:00'' 100.33 100.5 100.2 100.4))\<rfloor> \<noteq> 0
   \<and> (\<exists>e. calculate_entry hms E0 ''TCS''
              [bar ''09:15:00'' 100.1 100.4 100 100.3, bar ''09:20:00'' 100.33 100.5 100.2 100.4]
              ''BULLISH'' = Inr (Some e)
          \<and> entry_price e = 100.43 \<and> entry_time e = ''09:20:00'' \<and> quantity e = 99)"
proof -
  let ?c0 = "bar ''09:15:00'' 100.1 100.4 100 100.3"
  let ?c1 = "bar ''09:20:00'' 100.33 100.5 100.2 100.4"
  have o: "0 < Open ?c0" "0 < Open ?c1" by (simp_all add: bar_def)
  then have opens: "\<forall>c\<in>set [?c0, ?c1]. 0 < Open c" by simp
  have s: "0 \<le> slippage_percent E0" "slippage_percent E0 < 100" and cap: "0 \<le> capital_per_trade E0"
    by (simp_all add: E0_def)
  have fl: "\<lfloor>capital_per_trade E0 / slipped_entry E0 ''BULLISH'' (Open ?c1)\<rfloor> = 99"
    unfolding slip_entry by (rule floor_entry)
  then have fl0: "\<lfloor>capital_per_trade E0 / slipped_entry E0 ''BULLISH'' (Open ?c1)\<rfloor> \<noteq> 0"
    by simp
  have pre: "[?c0, ?c1] = [?c0] @ ?c1 # [] \<and> (\<forall>x\<in>set [?c0]. \<not> qualifies hms (entry_start E0) x)
       \<and> qualifies hms (entry_start E0) ?c1
       \<and> \<lfloor>capital_per_trade E0 / slipped_entry E0 ''BULLISH'' (Open ?c1)\<rfloor> \<noteq> 0"
    using q_early q_entry fl by simp
  from calculate_entry_result[OF opens s cap, of hms "''TCS''" "''BULLISH''"]
  have "\<forall>pre c post. [?c0, ?c1] = pre @ c # post
                \<and> (\<forall>x\<in>set pre. \<not> qualifies hms (entry_start E0) x)
                \<and> qualifies hms (entry_start E0) c
                \<and> \<lfloor>capital_per_trade E0 / slipped_entry E0 ''BULLISH'' (Open c)\<rfloor> \<noteq> 0
            \<longrightarrow> (\<exists>e. calculate_entry hms E0 ''TCS'' [?c0, ?c1] ''BULLISH'' = Inr (Some e)
                   \<and> entry_price e = py_round2 (slipped_entry E0 ''BULLISH'' (Open c))
                   \<and> entry_time e = Time c
                   \<and> quantity e = \<lfloor>capital_per_trade E0 / slipped_entry E0 ''BULLISH'' (Open c)\<rfloor>
                   \<and> symbol e = ''TCS'' \<and> bias e = ''BULLISH'')"
    by (elim conjE)
  from this[rule_format, OF pre] obtain e where
    e: "calculate_entry hms E0 ''TCS'' [?c0, ?c1] ''BULLISH'' = Inr (Some e)"
      "entry_price e = py_round2 (slipped_entry E0 ''BULLISH'' (Open ?c1))"
      "entry_time e = Time ?c1"
      "quantity e = \<lfloor>capital_per_trade E0 / slipped_entry E0 ''BULLISH'' (Open ?c1)\<rfloor>"
    by blast
  have p: "entry_price e = 100.43" using e(2) by (simp only: slip_entry round_entry)
  have t: "entry_time e = ''09:20:00''" using e(3) by (simp add: bar_def)
  have q: "quantity e = 99" using e(4) by (simp only: fl)
  have ex: "\<exists>e. calculate_entry hms E0 ''TCS'' [?c0, ?c1] ''BULLISH'' = Inr (Some e)
          \<and> entry_price e = 100.43 \<and> entry_time e = ''09:20:00'' \<and> quantity e = 99"
    by (rule exI[of _ e]) (intro conjI e(1) p t q)
  show ?thesis by (intro conjI o s cap q_early q_entry fl0 ex)
qed

text \<open>
  Claim C8 as stated fails on the price: for an open of 100.33 and a slippage of 0.1
  percent the returned \<open>entry_price\<close> is 100.43, not \<open>100.33 * (1 + 0.1 / 100) = 100.43033\<close>.
  Without a bound on the slippage the call can raise: at 100 percent a \<open>BEARISH\<close> entry
  price is 0, and the division for the quantity fails.
\<close>

theorem calculate_entry_price_counterexample:
  "calculate_entry hms E0 ''TCS'' [bar ''09:20:00'' 100.33 100.5 100.2 100.4] ''BULLISH''
     = Inr (Some \<lparr>symbol = ''TCS'', entry_time = ''09:20:00'', entry_price = 100.43, quantity = 99,
                  bias = ''BULLISH'', stop_loss = 98.42, target = 104.45, invested_amount = 9942.60\<rparr>)
   \<and> (100.43 :: real) \<noteq> 100.33 * (1 + 0.1 / 100)
   \<and> calculate_entry hms (E0\<lparr>slippage_percent := 100\<rparr>) ''TCS''
        [bar ''09:20:00'' 100.33 100.5 100.2 100.4] ''BEARISH'' = Inl ZeroDivisionError"
  by (simp add: calculate_entry_def slipped_entry_def entry_levels_def py_int_def fixture_defs
        py_round2_def round_half_even_def Let_def floor_eq_iff)

text \<open>
  Claim C2 (exit priority). When the scan, which starts at the row after the entry row,
  passes rows that cause no exit and then meets a row before the force-exit time that
  crosses both the stop loss and the target, the exit the simulation settles on is the
  stop-loss price at that row with the reason \<open>STOP_LOSS\<close>; the record carries that reason,
  the time of the row, and the stop-loss price after slippage and rounding.
\<close>

theorem stop_loss_before_target:
  assumes idx: "find_entry_idx (entry_time entry) candle_data = Some i"
    and split: "drop (i + 1) candle_data = pre @ c # post"
    and quiet: "\<forall>x\<in>set pre. no_exit strptime (force_exit_time E) (bias entry) (stop_loss entry) (target entry) x"
    and time: "strptime (Time c) = Some t" "t < force_exit_time E"
    and both: "crosses_both (bias entry) (stop_loss entry) (target entry) c"
  shows "find_exit strptime E entry candle_data i = (stop_loss entry, Time c, ''STOP_LOSS'')
       \<and> (\<exists>r. simulate_trade strptime E entry candle_data d = Some r
              \<and> exit_reason r = ''STOP_LOSS'' \<and> exit_reason r \<noteq> ''TARGET''
              \<and> exit_time r = Time c
              \<and> exit_price r = py_round2 (slipped_exit E (bias entry) (stop_loss entry)))"
proof -
  have "scan_exit strptime (force_exit_time E) (bias entry) (stop_loss entry) (target entry)
          (drop (i + 1) candle_data) = Some (stop_loss entry, Time c, ''STOP_LOSS'')"
    unfolding split using scan_exit_skip[OF quiet] scan_exit_both[of strptime c t, OF time both] by simp
  then have fe: "find_exit strptime E entry candle_data i = (stop_loss entry, Time c, ''STOP_LOSS'')"
    by (simp add: find_exit_def)
  show ?thesis
    using idx fe by (simp add: simulate_trade_def Let_def)
qed

text \<open>Claim C2 at a concrete input: the row at 09:30 has a low of 97.5 and a high of
  104.5, for a stop loss of 98 and a target of 104.\<close>

theorem stop_loss_before_target_witness:
  "find_entry_idx (entry_time entry0)
      [bar ''09:20:00'' 100 100.5 99.5 100, bar ''09:25:00'' 100 101 99.5 100.5,
       bar ''09:30:00'' 100.5 104.5 97.5 103, bar ''09:35:00'' 103 105 102 104] = Some 0
   \<and> drop (0 + 1) [bar ''09:20:00'' 100 100.5 99.5 100, bar ''09:25:00'' 100 101 99.5 100.5,
       bar ''09:30:00'' 100.5 104.5 97.5 103, bar ''09:35:00'' 103 105 102 104]
       = [bar ''09:25:00'' 100 101 99.5 100.5] @ bar ''09:30:00'' 100.5 104.5 97.5 103
           # [bar ''09:35:00'' 103 105 102 104]
   \<and> no_exit hms (force_exit_time E0) (bias entry0) (stop_loss entry0) (target entry0)
        (bar ''09:25:00'' 100 101 99.5 100.5)
   \<and> hms (Time (bar ''09:30:00'' 100.5 104.5 97.5 103)) = Some (9, 30, 0)
   \<and> (9, 30, 0) < force_exit_time E0
   \<and> crosses_both (bias entry0) (stop_loss entry0) (target entry0) (bar ''09:30:00'' 100.5 104.5 97.5 103)
   \<and> (\<exists>r. simulate_trade hms E0 entry0
              [bar ''09:20:00'' 100 100.5 99.5 100, bar ''09:25:00'' 100 101 99.5 100.5,
               bar ''09:30:00'' 100.5 104.5 97.5 103, bar ''09:35:00'' 103 105 102 104] ''2024-01-02'' = Some r
          \<and> exit_reason r = ''STOP_LOSS'' \<and> exit_reason r \<noteq> ''TARGET''
          \<and> exit_time r = ''09:30:00''
          \<and> exit_price r = py_round2 (slipped_exit E0 (bias entry0) (stop_loss entry0)))"
proof -
  let ?c0 = "bar ''09:20:00'' 100 100.5 99.5 100" and ?c1 = "bar ''09:25:00'' 100 101 99.5 100.5"
  let ?c2 = "bar ''09:30:00'' 100.5 104.5 97.5 103" and ?c3 = "bar ''09:35:00'' 103 105 102 104"
  have idx: "find_entry_idx (entry_time entry0) [?c0, ?c1, ?c2, ?c3] = Some 0"
    by (simp add: entry0_def bar_def)
  have split: "drop (0 + 1) [?c0, ?c1, ?c2, ?c3] = [?c1] @ ?c2 # [?c3]" by simp
  have q1: "no_exit hms (force_exit_time E0) (bias entry0) (stop_loss entry0) (target entry0) ?c1"
    by (simp add: no_exit_def fixture_defs)
  then have quiet: "\<forall>x\<in>set [?c1]. no_exit hms (force_exit_time E0) (bias entry0) (stop_loss entry0) (target entry0) x"
    by simp
  have time: "hms (Time ?c2) = Some (9, 30, 0)" "(9, 30, 0) < force_exit_time E0"
    by (simp_all add: fixture_defs)
  have both: "crosses_both (bias entry0) (stop_loss entry0) (target entry0) ?c2"
    by (simp add: crosses_both_def fixture_defs)
  have tc: "Time ?c2 = ''09:30:00''" by (simp add: bar_def)
  note t = stop_loss_before_target[OF idx split quiet time both, of "''2024-01-02''"]
  from conjunct2[OF t] have r: "\<exists>r. simulate_trade hms E0 entry0 [?c0, ?c1, ?c2, ?c3] ''2024-01-02'' = Some r
          \<and> exit_reason r = ''STOP_LOSS'' \<and> exit_reason r \<noteq> ''TARGET''
          \<and> exit_time r = ''09:30:00''
          \<and> exit_price r = py_round2 (slipped_exit E0 (bias entry0) (stop_loss entry0))"
    unfolding tc .
  show ?thesis
    by (intro conjI idx split q1 time both r)
qed

text \<open>
  Claim C7 (force exit at the end of the series). When no row after the entry row causes
  an exit, the simulation exits at the close of the last row of the series with the
  reason \<open>FORCE_EXIT_EOD\<close>; the record carries that reason, the time of the last row, and
  its close after slippage and rounding. The series is not empty, since the entry row was
  found in it, and this covers an entry row that is the last row.
\<close>

theorem force_exit_at_series_end:
  assumes idx: "find_entry_idx (entry_time entry) candle_data = Some i"
    and quiet: "\<forall>x\<in>set (drop (i + 1) candle_data).
                  no_exit strptime (force_exit_time E) (bias entry) (stop_loss entry) (target entry) x"
  shows "find_exit strptime E entry candle_data i
           = (Close (last candle_data), Time (last candle_data), ''FORCE_EXIT_EOD'')
       \<and> (\<exists>r. simulate_trade strptime E entry candle_data d = Some r
              \<and> exit_reason r = ''FORCE_EXIT_EOD''
              \<and> exit_time r = Time (last candle_data)
              \<and> exit_price r = py_round2 (slipped_exit E (bias entry) (Close (last candle_data))))
       \<and> candle_data \<noteq> []"
proof -
  have fe: "find_exit strptime E entry candle_data i
           = (Close (last candle_data), Time (last candle_data), ''FORCE_EXIT_EOD'')"
    using scan_exit_quiet[OF quiet] by (simp add: find_exit_def)
  have ne: "candle_data \<noteq> []" using find_entry_idx_less[OF idx] by auto
  show ?thesis
    using idx fe ne by (simp add: simulate_trade_def Let_def)
qed

text \<open>Claim C7 at two concrete inputs: one quiet row after the entry row, and no row
  after it.\<close>

theorem force_exit_at_series_end_witness:
  "find_entry_idx (entry_time entry0)
      [bar ''09:20:00'' 100 100.5 99.5 100, bar ''09:25:00'' 100 101 99.5 100.5] = Some 0
   \<and> drop (0 + 1) [bar ''09:20:00'' 100 100.5 99.5 100, bar ''09:25:00'' 100 101 99.5 100.5]
       = [bar ''09:25:00'' 100 101 99.5 100.5]
   \<and> no_exit hms (force_exit_time E0) (bias entry0) (stop_loss entry0) (target entry0)
        (bar ''09:25:00'' 100 101 99.5 100.5)
   \<and> (\<exists>r. simulate_trade hms E0 entry0
              [bar ''09:20:00'' 100 100.5 99.5 100, bar ''09:25:00'' 100 101 99.5 100.5] ''2024-01-02'' = Some r
          \<and> exit_reason r = ''FORCE_EXIT_EOD''
          \<and> exit_time r = ''09:25:00''
          \<and> exit_price r = py_round2 (slipped_exit E0 (bias entry0) 100.5))
   \<and> find_entry_idx (entry_time entry0) [bar ''09:20:00'' 100 100.5 99.5 100] = Some 0
   \<and> drop (0 + 1) [bar ''09:20:00'' 100 100.5 99.5 100] = []
   \<and> (\<exists>r. simulate_trade hms E0 entry0 [bar ''09:20:00'' 100 100.5 99.5 100] ''2024-01-02'' = Some r
          \<and> exit_reason r = ''FORCE_EXIT_EOD''
          \<and> exit_time r = ''09:20:00''
          \<and> exit_price r = py_round2 (slipped_exit E0 (bias entry0) 100))"
proof -
  let ?c0 = "bar ''09:20:00'' 100 100.5 99.5 100" and ?c1 = "bar ''09:25:00'' 100 101 99.5 100.5"
  have idx: "find_entry_idx (entry_time entry0) [?c0, ?c1] = Some 0"
    and idx1: "find_entry_idx (entry_time entry0) [?c0] = Some 0"
    by (simp_all add: entry0_def bar_def)
  have d: "drop (0 + 1) [?c0, ?c1] = [?c1]" and d1: "drop (0 + 1) [?c0] = []" by simp_all
  have q1: "no_exit hms (force_exit_time E0) (bias entry0) (stop_loss entry0) (target entry0) ?c1"
    by (simp add: no_exit_def fixture_defs)
  have quiet: "\<forall>x\<in>set (drop (0 + 1) [?c0, ?c1]).
        no_exit hms (force_exit_time E0) (bias entry0) (stop_loss entry0) (target entry0) x"
    unfolding d using q1 by simp
  have quiet1: "\<forall>x\<in>set (drop (0 + 1) [?c0]).
        no_exit hms (force_exit_time E0) (bias entry0) (stop_loss entry0) (target entry0) x"
    unfolding d1 by simp
  have l: "Time (last [?c0, ?c1]) = ''09:25:00''" "Close (last [?c0, ?c1]) = 100.5"
    "Time (last [?c0]) = ''09:20:00''" "Close (last [?c0]) = 100"
    by (simp_all add: bar_def)
  note t = force_exit_at_series_end[OF idx quiet, of "''2024-01-02''"]
  note t1 = force_exit_at_series_end[OF idx1 quiet1, of "''2024-01-02''"]
  from conjunct1[OF conjunct2[OF t]]
  have r: "\<exists>r. simulate_trade hms E0 entry0 [?c0, ?c1] ''2024-01-02'' = Some r
          \<and> exit_reason r = ''FORCE_EXIT_EOD'' \<and> exit_time r = ''09:25:00''
          \<and> exit_price r = py_round2 (slipped_exit E0 (bias entry0) 100.5)"
    unfolding l .
  from conjunct1[OF conjunct2[OF t1]]
  have r1: "\<exists>r. simulate_trade hms E0 entry0 [?c0] ''2024-01-02'' = Some r
          \<and> exit_reason r = ''FORCE_EXIT_EOD'' \<and> exit_time r = ''09:20:00''
          \<and> exit_price r = py_round2 (slipped_exit E0 (bias entry0) 100)"
    unfolding l .
  show ?thesis
    by (intro conjI idx d q1 r idx1 d1 r1)
qed

text \<open>
  Claim C4, amended (sign of the outcome). For every record \<open>simulate_trade\<close> produces, the
  label is \<open>PROFIT\<close>, \<open>LOSS\<close> or \<open>BREAKEVEN\<close> exactly when the net profit before
  rounding is positive, negative or zero; the \<open>net_pnl\<close> field is that amount rounded to
  two decimals, so a positive field implies \<open>PROFIT\<close> and a negative field implies
  \<open>LOSS\<close>.
\<close>

theorem outcome_label_sign:
  assumes idx: "find_entry_idx (entry_time entry) candle_data = Some i"
  shows "\<exists>r net. simulate_trade strptime E entry candle_data d = Some r
          \<and> net = net_of E entry (slipped_exit E (bias entry) (fst (find_exit strptime E entry candle_data i)))
          \<and> net_pnl r = py_round2 net
          \<and> (profit_or_loss r = ''PROFIT'' \<longleftrightarrow> 0 < net)
          \<and> (profit_or_loss r = ''LOSS'' \<longleftrightarrow> net < 0)
          \<and> (profit_or_loss r = ''BREAKEVEN'' \<longleftrightarrow> net = 0)
          \<and> (0 < net_pnl r \<longrightarrow> profit_or_loss r = ''PROFIT'')
          \<and> (net_pnl r < 0 \<longrightarrow> profit_or_loss r = ''LOSS'')"
proof -
  let ?net = "net_of E entry (slipped_exit E (bias entry) (fst (find_exit strptime E entry candle_data i)))"
  have a: "0 < py_round2 ?net \<Longrightarrow> 0 < ?net"
    using py_round2_nonpos[of ?net] by linarith
  have b: "py_round2 ?net < 0 \<Longrightarrow> ?net < 0"
    using py_round2_nonneg[of ?net] by linarith
  show ?thesis
    using idx a b
    by (cases "find_exit strptime E entry candle_data i")
       (auto simp: simulate_trade_def Let_def)
qed

text \<open>Claim C4, amended, at a concrete input: a force exit at a close of 100.8 gives a
  net profit of 0.5992, recorded as 0.6, and the label \<open>PROFIT\<close>.\<close>

theorem outcome_label_sign_witness:
  "find_entry_idx (entry_time entry0)
      [bar ''09:20:00'' 100 100.5 99.5 100, bar ''15:15:00'' 100.5 101 100.2 100.8] = Some 0
   \<and> (\<exists>r. simulate_trade hms E0 entry0
             [bar ''09:20:00'' 100 100.5 99.5 100, bar ''15:15:00'' 100.5 101 100.2 100.8] ''2024-01-02'' = Some r
          \<and> net_pnl r = 0.6 \<and> 0 < net_pnl r \<and> profit_or_loss r = ''PROFIT'')"
proof -
  let ?cs = "[bar ''09:20:00'' 100 100.5 99.5 100, bar ''15:15:00'' 100.5 101 100.2 100.8]"
  have idx: "find_entry_idx (entry_time entry0) ?cs = Some 0"
    by (simp add: entry0_def bar_def)
  have fe: "find_exit hms E0 entry0 ?cs 0 = (100.8, ''15:15:00'', ''FORCE_EXIT_EOD'')"
    by (simp add: find_exit_def fixture_defs)
  have net: "net_of E0 entry0 (slipped_exit E0 (bias entry0) (fst (find_exit hms E0 entry0 ?cs 0))) = 0.5992"
    unfolding fe by (simp add: net_of_def gross_of_def cost_of_def slipped_exit_def E0_def entry0_def)
  have rd: "py_round2 0.5992 = 0.6"
    by (simp add: py_round2_def round_half_even_def Let_def)
  from outcome_label_sign[OF idx, of hms E0 "''2024-01-02''"] obtain r where
    r: "simulate_trade hms E0 entry0 ?cs ''2024-01-02'' = Some r"
      "net_pnl r = py_round2 (net_of E0 entry0 (slipped_exit E0 (bias entry0) (fst (find_exit hms E0 entry0 ?cs 0))))"
      "0 < net_pnl r \<longrightarrow> profit_or_loss r = ''PROFIT''"
    by blast
  have n: "net_pnl r = 0.6" using r(2) unfolding net rd .
  then have p: "0 < net_pnl r" by simp
  with r(3) have l: "profit_or_loss r = ''PROFIT''" by simp
  have "\<exists>r. simulate_trade hms E0 entry0 ?cs ''2024-01-02'' = Some r
          \<and> net_pnl r = 0.6 \<and> 0 < net_pnl r \<and> profit_or_loss r = ''PROFIT''"
    by (rule exI[of _ r]) (intro conjI r(1) n p l)
  with idx show ?thesis by (intro conjI)
qed

text \<open>
  Claim C4 as stated fails: a force exit at a close of 100.2 gives a net profit of
  \<open>-0.0002\<close>, so the label is \<open>LOSS\<close>, and the recorded \<open>net_pnl\<close> is 0.
\<close>

theorem outcome_label_sign_counterexample:
  "map_option profit_or_loss (simulate_trade hms E0 entry0
        [bar ''09:20:00'' 100 100.5 99.5 100, bar ''15:15:00'' 100.2 100.3 100.1 100.2] ''2024-01-02'')
     = Some ''LOSS''
   \<and> map_option net_pnl (simulate_trade hms E0 entry0
        [bar ''09:20:00'' 100 100.5 99.5 100, bar ''15:15:00'' 100.2 100.3 100.1 100.2] ''2024-01-02'')
     = Some 0"
  by (simp add: simulate_trade_def find_exit_def slipped_exit_def net_of_def gross_of_def cost_of_def
        fixture_defs py_round2_def round_half_even_def Let_def)

section \<open>Properties of the expectancy\<close>

text \<open>
  Claim C9 (expectancy bounds). For every list of trades the result has
  \<open>signal_strength = max(0, expectancy)\<close>, and for the empty list \<open>win_rate\<close>,
  \<open>avg_win\<close>, \<open>avg_loss\<close>, \<open>expectancy\<close>, \<open>signal_strength\<close> and \<open>total_trades\<close> are
  0. The function is total: it has no error result.
\<close>

theorem expectancy_signal_and_empty:
  "signal_strength (calculate_expectancy trades) = max 0 (expectancy (calculate_expectancy trades))
   \<and> win_rate (calculate_expectancy []) = 0
   \<and> avg_win (calculate_expectancy []) = 0
   \<and> avg_loss (calculate_expectancy []) = 0
   \<and> expectancy (calculate_expectancy []) = 0
   \<and> signal_strength (calculate_expectancy []) = 0
   \<and> total_trades (calculate_expectancy []) = 0"
  by (simp add: calculate_expectancy_def Let_def)

lemma count_split:
  "\<forall>t\<in>set trades. net_pnl t \<noteq> 0 \<Longrightarrow>
   length (filter (\<lambda>t. 0 < net_pnl t) trades) + length (filter (\<lambda>t. net_pnl t < 0) trades)
     = length trades"
  by (induction trades) auto

text \<open>
  Claim C3, amended (expectancy). For a non-empty list of trades, the returned
  \<open>win_rate\<close> is 100 times the share of trades with a positive \<open>net_pnl\<close>; \<open>avg_win\<close>
  is the mean of the positive values (0 when there is none); \<open>avg_loss\<close> is the absolute
  value of the mean of the negative values (0 when there is none); and \<open>expectancy\<close> is
  the share of winning trades times \<open>avg_win\<close> minus the share of losing trades times
  \<open>avg_loss\<close>, which is the mean \<open>net_pnl\<close> of all trades. The share of losing trades
  is one minus the share of winning trades when no trade has \<open>net_pnl = 0\<close>.
\<close>

theorem expectancy_formula:
  assumes ne: "trades \<noteq> []"
  shows "win_rate (calculate_expectancy trades)
           = real (length (filter (\<lambda>t. 0 < net_pnl t) trades)) / real (length trades) * 100
       \<and> avg_win (calculate_expectancy trades)
           = (if filter (\<lambda>t. 0 < net_pnl t) trades = [] then 0
              else sum_list (map net_pnl (filter (\<lambda>t. 0 < net_pnl t) trades))
                   / real (length (filter (\<lambda>t. 0 < net_pnl t) trades)))
       \<and> avg_loss (calculate_expectancy trades)
           = (if filter (\<lambda>t. net_pnl t < 0) trades = [] then 0
              else \<bar>sum_list (map net_pnl (filter (\<lambda>t. net_pnl t < 0) trades))
                    / real (length (filter (\<lambda>t. net_pnl t < 0) trades))\<bar>)
       \<and> expectancy (calculate_expectancy trades)
           = real (length (filter (\<lambda>t. 0 < net_pnl t) trades)) / real (length trades)
               * avg_win (calculate_expectancy trades)
             - real (length (filter (\<lambda>t. net_pnl t < 0) trades)) / real (length trades)
               * avg_loss (calculate_expectancy trades)
       \<and> expectancy (calculate_expectancy trades)
           = sum_list (map net_pnl trades) / real (length trades)
       \<and> ((\<forall>t\<in>set trades. net_pnl t \<noteq> 0) \<longrightarrow>
            expectancy (calculate_expectancy trades)
              = real (length (filter (\<lambda>t. 0 < net_pnl t) trades)) / real (length trades)
                  * avg_win (calculate_expectancy trades)
                - (1 - real (length (filter (\<lambda>t. 0 < net_pnl t) trades)) / real (length trades))
                  * avg_loss (calculate_expectancy trades))"
proof -
  let ?r = "calculate_expectancy trades"
  let ?w = "real (length (filter (\<lambda>t. 0 < net_pnl t) trades))"
  let ?l = "real (length (filter (\<lambda>t. net_pnl t < 0) trades))"
  let ?n = "real (length trades)"
  have n: "0 < ?n" using ne by simp
  have 1: "win_rate ?r = ?w / ?n * 100"
    and 2: "avg_win ?r = (if filter (\<lambda>t. 0 < net_pnl t) trades = [] then 0
              else sum_list (map net_pnl (filter (\<lambda>t. 0 < net_pnl t) trades)) / ?w)"
    and 3: "avg_loss ?r = (if filter (\<lambda>t. net_pnl t < 0) trades = [] then 0
              else \<bar>sum_list (map net_pnl (filter (\<lambda>t. net_pnl t < 0) trades)) / ?l\<bar>)"
    and 4: "expectancy ?r = ?w / ?n * avg_win ?r - ?l / ?n * avg_loss ?r"
    using ne by (simp_all add: calculate_expectancy_def Let_def)
  have 5: "expectancy ?r = sum_list (map net_pnl trades) / ?n"
    using ne by (rule mean)
  have 6: "expectancy ?r = ?w / ?n * avg_win ?r - (1 - ?w / ?n) * avg_loss ?r"
    if "\<forall>t\<in>set trades. net_pnl t \<noteq> 0"
  proof -
    from count_split[OF that] have "?w + ?l = ?n"
      by (simp only: of_nat_add[symmetric])
    then have "?l = ?n - ?w" by simp
    then have "?l / ?n = 1 - ?w / ?n" using n by (simp add: diff_divide_distrib)
    with 4 show ?thesis by simp
  qed
  from 1 2 3 4 5 6 show ?thesis by (intro conjI impI)
qed

text \<open>
  Claim C3 as stated fails with a breakeven trade: for the values 10, 0 and \<open>-10\<close> the
  expectancy is 0, while \<open>1/3 * 10 - (1 - 1/3) * 10\<close> is not. The returned \<open>win_rate\<close> is
  the percentage \<open>100 / 3\<close>.
\<close>

theorem expectancy_formula_counterexample:
  "expectancy (calculate_expectancy
       [sample_trade\<lparr>net_pnl := 10\<rparr>, sample_trade, sample_trade\<lparr>net_pnl := - 10\<rparr>]) = 0
   \<and> avg_win (calculate_expectancy
       [sample_trade\<lparr>net_pnl := 10\<rparr>, sample_trade, sample_trade\<lparr>net_pnl := - 10\<rparr>]) = 10
   \<and> avg_loss (calculate_expectancy
       [sample_trade\<lparr>net_pnl := 10\<rparr>, sample_trade, sample_trade\<lparr>net_pnl := - 10\<rparr>]) = 10
   \<and> win_rate (calculate_expectancy
       [sample_trade\<lparr>net_pnl := 10\<rparr>, sample_trade, sample_trade\<lparr>net_pnl := - 10\<rparr>]) = 100 / 3
   \<and> (1 / 3) * 10 - (1 - 1 / 3) * 10 \<noteq> (0 :: real)"
  by (simp add: calculate_expectancy_def sample_trade_def)

text \<open>Claim C3, amended, at a concrete input without a breakeven trade: the values 10
  and \<open>-4\<close>.\<close>

theorem expectancy_formula_witness:
  "[sample_trade\<lparr>net_pnl := 10\<rparr>, sample_trade\<lparr>net_pnl := - 4\<rparr>] \<noteq> []
   \<and> net_pnl (sample_trade\<lparr>net_pnl := 10\<rparr>) \<noteq> 0
   \<and> net_pnl (sample_trade\<lparr>net_pnl := - 4\<rparr>) \<noteq> 0
   \<and> expectancy (calculate_expectancy [sample_trade\<lparr>net_pnl := 10\<rparr>, sample_trade\<lparr>net_pnl := - 4\<rparr>])
       = sum_list (map net_pnl [sample_trade\<lparr>net_pnl := 10\<rparr>, sample_trade\<lparr>net_pnl := - 4\<rparr>])
           / real (length [sample_trade\<lparr>net_pnl := 10\<rparr>, sample_trade\<lparr>net_pnl := - 4\<rparr>])
   \<and> expectancy (calculate_expectancy [sample_trade\<lparr>net_pnl := 10\<rparr>, sample_trade\<lparr>net_pnl := - 4\<rparr>])
       = real (length (filter (\<lambda>t. 0 < net_pnl t) [sample_trade\<lparr>net_pnl := 10\<rparr>, sample_trade\<lparr>net_pnl := - 4\<rparr>]))
           / real (length [sample_trade\<lparr>net_pnl := 10\<rparr>, sample_trade\<lparr>net_pnl := - 4\<rparr>])
           * avg_win (calculate_expectancy [sample_trade\<lparr>net_pnl := 10\<rparr>, sample_trade\<lparr>net_pnl := - 4\<rparr>])
         - (1 - real (length (filter (\<lambda>t. 0 < net_pnl t) [sample_trade\<lparr>net_pnl := 10\<rparr>, sample_trade\<lparr>net_pnl := - 4\<rparr>]))
                / real (length [sample_trade\<lparr>net_pnl := 10\<rparr>, sample_trade\<lparr>net_pnl := - 4\<rparr>]))
           * avg_loss (calculate_expectancy [sample_trade\<lparr>net_pnl := 10\<rparr>, sample_trade\<lparr>net_pnl := - 4\<rparr>])
   \<and> expectancy (calculate_expectancy [sample_trade\<lparr>net_pnl := 10\<rparr>, sample_trade\<lparr>net_pnl := - 4\<rparr>]) = 3"
proof -
  let ?ts = "[sample_trade\<lparr>net_pnl := 10\<rparr>, sample_trade\<lparr>net_pnl := - 4\<rparr>]"
  have ne: "?ts \<noteq> []" by simp
  have n1: "net_pnl (sample_trade\<lparr>net_pnl := 10\<rparr>) \<noteq> 0"
    and n2: "net_pnl (sample_trade\<lparr>net_pnl := - 4\<rparr>) \<noteq> 0" by simp_all
  then have nz: "\<forall>t\<in>set ?ts. net_pnl t \<noteq> 0" by simp
  note t = expectancy_formula[OF ne]
  have 5: "expectancy (calculate_expectancy ?ts) = sum_list (map net_pnl ?ts) / real (length ?ts)"
    using t by (elim conjE)
  have 6: "(\<forall>t\<in>set ?ts. net_pnl t \<noteq> 0) \<longrightarrow>
            expectancy (calculate_expectancy ?ts)
              = real (length (filter (\<lambda>t. 0 < net_pnl t) ?ts)) / real (length ?ts)
                  * avg_win (calculate_expectancy ?ts)
                - (1 - real (length (filter (\<lambda>t. 0 < net_pnl t) ?ts)) / real (length ?ts))
                  * avg_loss (calculate_expectancy ?ts)"
    using t by (elim conjE)
  from 6 nz have 7: "expectancy (calculate_expectancy ?ts)
              = real (length (filter (\<lambda>t. 0 < net_pnl t) ?ts)) / real (length ?ts)
                  * avg_win (calculate_expectancy ?ts)
                - (1 - real (length (filter (\<lambda>t. 0 < net_pnl t) ?ts)) / real (length ?ts))
                  * avg_loss (calculate_expectancy ?ts)" by (rule mp)
  have 8: "expectancy (calculate_expectancy ?ts) = 3"
    unfolding 5 by simp
  show ?thesis by (intro conjI ne n1 n2 5 7 8)
qed

end
